theory Spec2Isabelle
  imports Main "HOL-Library.Finite_Map" "HOL-Library.Word"
begin

section \<open>Data model of \<^verbatim>\<open>pkg/workers/sharings/share_data.go\<close>\<close>

subsection \<open>Go slices\<close>

text \<open>
  A Go slice is either \<^verbatim>\<open>nil\<close> or a sequence of elements; the source tests
  \<^verbatim>\<open>refs != nil\<close> and uses \<^verbatim>\<open>reflect.DeepEqual\<close> on slices, which both tell a
  \<^verbatim>\<open>nil\<close> slice from an empty one. \<open>None\<close> is \<^verbatim>\<open>nil\<close>.
\<close>

type_synonym 'a slice = "'a list option"

definition elems :: "'a slice \<Rightarrow> 'a list" where
  "elems xs = (case xs of None \<Rightarrow> [] | Some l \<Rightarrow> l)"

definition len :: "'a slice \<Rightarrow> nat" where
  "len xs = length (elems xs)"

definition append_go :: "'a slice \<Rightarrow> 'a \<Rightarrow> 'a slice" where
  "append_go xs x = Some (elems xs @ [x])"

subsection \<open>Structures\<close>

record RecipientInfo =
  URL :: string
  Scheme :: string
  Token :: string

text \<open>\<^verbatim>\<open>couchdb.DocReference\<close>: the pair of a doctype and an id.\<close>

record DocReference =
  ref_Type :: string
  ref_ID :: string

text \<open>A handle on an opened \<^verbatim>\<open>vfs.File\<close>.\<close>

type_synonym File = nat

text \<open>\<^verbatim>\<open>url.Values\<close> is \<^verbatim>\<open>map[string][]string\<close>; \<^verbatim>\<open>Add\<close> appends to the values of a key.\<close>

type_synonym Values = "string \<rightharpoonup> string list"

definition Add :: "Values \<Rightarrow> string \<Rightarrow> string \<Rightarrow> Values" where
  "Add v key val = v(key \<mapsto> (case v key of None \<Rightarrow> [] | Some vs \<Rightarrow> vs) @ [val])"

record fileOptions =
  contentlength :: string
  mime :: string
  md5 :: string
  queries :: Values
  content :: File
  set_flag :: bool

record SendOptions =
  DocID :: string
  DocType :: string
  Type :: string
  Recipients :: "RecipientInfo list"
  Path :: string
  DocRev :: string
  Selector :: string
  Values :: "string list"
  sharedRefs :: "DocReference slice"
  fileOpts :: "fileOptions option"

text \<open>
  The constants of \<^verbatim>\<open>pkg/consts\<close>, \<^verbatim>\<open>pkg/permissions\<close> and \<^verbatim>\<open>web/files\<close> that the
  file uses are declared outside it: they are parameters of the model.
\<close>

record Consts =
  SelectorReferencedBy :: string
  RootDirID :: string
  SharedWithMeDirID :: string
  FileType :: string
  DirType :: string
  Files :: string
  QueryParamType :: string
  QueryParamName :: string
  QueryParamExecutable :: string
  QueryParamCreatedAt :: string
  QueryParamUpdatedAt :: string
  QueryParamReferencedBy :: string
  QueryParamDirID :: string
  QueryParamRev :: string
  QueryParamTags :: string
  RefSep :: string
  TagSeparator :: string

section \<open>References\<close>

subsection \<open>\<^verbatim>\<open>strings.Split\<close>\<close>

fun hasPrefix :: "string \<Rightarrow> string \<Rightarrow> bool" where
  "hasPrefix s [] = True"
| "hasPrefix [] (p # ps) = False"
| "hasPrefix (c # cs) (p # ps) = (c = p \<and> hasPrefix cs ps)"

text \<open>
  \<open>splitFrom sep skip cur s\<close> scans \<open>s\<close> from the left; \<open>cur\<close> is the current part
  (reversed) and \<open>skip\<close> counts the bytes of a separator just matched that are still
  to be dropped. Occurrences of the separator are taken leftmost and do not overlap.
\<close>

fun splitFrom :: "string \<Rightarrow> nat \<Rightarrow> string \<Rightarrow> string \<Rightarrow> string list" where
  "splitFrom sep skip cur [] = [rev cur]"
| "splitFrom sep (Suc k) cur (c # cs) = splitFrom sep k cur cs"
| "splitFrom sep 0 cur (c # cs) =
     (if hasPrefix (c # cs) sep then rev cur # splitFrom sep (length sep - 1) [] cs
      else splitFrom sep 0 (c # cur) cs)"

text \<open>
  \<^verbatim>\<open>strings.Split(s, sep)\<close>. With an empty separator Go explodes the string into
  its UTF-8 sequences; the model then gives one part per byte, which is the same on
  ASCII input.
\<close>

definition Split :: "string \<Rightarrow> string \<Rightarrow> string list" where
  "Split s sep = (if sep = [] then map (\<lambda>c. [c]) s else splitFrom sep 0 [] s)"

subsection \<open>\<^verbatim>\<open>getSharedReferences\<close>\<close>

text \<open>The loop over \<^verbatim>\<open>opts.Values\<close>; \<open>acc\<close> is \<^verbatim>\<open>opts.sharedRefs\<close>.\<close>

fun parseRefs :: "Consts \<Rightarrow> string list \<Rightarrow> DocReference slice \<Rightarrow> DocReference slice" where
  "parseRefs k [] acc = acc"
| "parseRefs k (ref # refs) acc =
     (let parts = Split ref (RefSep k) in
      if length parts \<noteq> 2 then parseRefs k refs acc
      else parseRefs k refs
             (append_go acc \<lparr>ref_Type = parts ! 0, ref_ID = parts ! 1\<rparr>))"

text \<open>The method caches its result in \<^verbatim>\<open>opts.sharedRefs\<close>: it returns the new options too.\<close>

definition getSharedReferences :: "Consts \<Rightarrow> SendOptions \<Rightarrow> SendOptions \<times> DocReference slice" where
  "getSharedReferences k opts =
     (if sharedRefs opts = None \<and> Selector opts = SelectorReferencedBy k
      then (let opts' = opts\<lparr>sharedRefs := parseRefs k (Values opts) (Some [])\<rparr>
            in (opts', sharedRefs opts'))
      else (opts, sharedRefs opts))"

subsection \<open>\<^verbatim>\<open>extractRelevantReferences\<close>\<close>

text \<open>The inner loop: \<^verbatim>\<open>match\<close> after ranging over \<^verbatim>\<open>sharedRefs\<close>, with its \<^verbatim>\<open>break\<close>.\<close>

fun matchShared :: "DocReference \<Rightarrow> DocReference list \<Rightarrow> bool" where
  "matchShared ref [] = False"
| "matchShared ref (sharedRef # rest) =
     (if ref_ID ref = ref_ID sharedRef then True else matchShared ref rest)"

fun extractLoop :: "DocReference list \<Rightarrow> DocReference list \<Rightarrow> DocReference slice \<Rightarrow> DocReference slice" where
  "extractLoop shared [] res = res"
| "extractLoop shared (ref # refs) res =
     (if matchShared ref shared then extractLoop shared refs (append_go res ref)
      else extractLoop shared refs res)"

definition extractRelevantReferences ::
  "Consts \<Rightarrow> SendOptions \<Rightarrow> DocReference slice \<Rightarrow> SendOptions \<times> DocReference slice" where
  "extractRelevantReferences k opts refs =
     (let (opts', shared) = getSharedReferences k opts
      in (opts', extractLoop (elems shared) (elems refs) None))"

subsection \<open>\<^verbatim>\<open>findMissingRefs\<close> and \<^verbatim>\<open>findNewRefs\<close>\<close>

text \<open>The inner loop has no \<^verbatim>\<open>break\<close>: \<^verbatim>\<open>hasRef\<close> is set and stays set.\<close>

fun hasRefLoop :: "DocReference \<Rightarrow> DocReference list \<Rightarrow> bool \<Rightarrow> bool" where
  "hasRefLoop lr [] hasRef = hasRef"
| "hasRefLoop lr (rr # rest) hasRef =
     (if ref_ID rr = ref_ID lr \<and> ref_Type rr = ref_Type lr then hasRefLoop lr rest True
      else hasRefLoop lr rest hasRef)"

fun missingLoop :: "DocReference list \<Rightarrow> DocReference list \<Rightarrow> DocReference slice \<Rightarrow> DocReference slice" where
  "missingLoop [] rref refs = refs"
| "missingLoop (lr # rest) rref refs =
     (if \<not> hasRefLoop lr rref False then missingLoop rest rref (append_go refs lr)
      else missingLoop rest rref refs)"

definition findMissingRefs :: "DocReference slice \<Rightarrow> DocReference slice \<Rightarrow> DocReference slice" where
  "findMissingRefs lref rref = missingLoop (elems lref) (elems rref) None"

text \<open>
  Of the two file documents \<^verbatim>\<open>findNewRefs\<close> reads the field \<^verbatim>\<open>ReferencedBy\<close> only,
  which is what it takes here.
\<close>

definition findNewRefs ::
  "Consts \<Rightarrow> SendOptions \<Rightarrow> DocReference slice \<Rightarrow> DocReference slice \<Rightarrow> SendOptions \<times> DocReference slice" where
  "findNewRefs k opts localRefs remoteRefs =
     (let (opts1, refs) = extractRelevantReferences k opts localRefs;
          (opts2, remoteRefs') = extractRelevantReferences k opts1 remoteRefs
      in if len refs > len remoteRefs' then (opts2, findMissingRefs refs remoteRefs')
         else (opts2, None))"

section \<open>Errors\<close>

text \<open>
  The values of type \<^verbatim>\<open>error\<close>: the three errors that the file declares, those made
  with \<^verbatim>\<open>errors.New\<close> and \<^verbatim>\<open>fmt.Errorf\<close> (the format and the error it wraps), a
  \<^verbatim>\<open>*request.Error\<close> with its title and detail, any error of another type, and a
  \<^verbatim>\<open>*multierror.Error\<close>.
\<close>

datatype Err =
    ErrBadFileFormat
  | ErrRemoteDocDoesNotExist
  | ErrBadPermission
  | ErrorsNew string
  | RequestError string string
  | OtherError string
  | Errorf string Err
  | MultiError "Err list"

section \<open>Placement\<close>

fun isSharedLoop :: "string \<Rightarrow> string list \<Rightarrow> bool" where
  "isSharedLoop ident [] = False"
| "isSharedLoop ident (acceptedID # rest) =
     (if ident = acceptedID then True else isSharedLoop ident rest)"

definition isShared :: "Consts \<Rightarrow> string \<Rightarrow> string list \<Rightarrow> bool" where
  "isShared k ident acceptedIDs =
     (if ident = RootDirID k then False else isSharedLoop ident acceptedIDs)"

definition getParentDirID :: "Consts \<Rightarrow> SendOptions \<Rightarrow> string \<Rightarrow> Err + string" where
  "getParentDirID k opts dirID =
     (if Selector opts = ''''
      then (if DocID opts = RootDirID k then Inl (ErrorsNew ''/ cannot be shared'')
            else if isShared k (DocID opts) (Values opts) then Inr (SharedWithMeDirID k)
            else Inr dirID)
      else Inr (SharedWithMeDirID k))"


section \<open>Documents\<close>

subsection \<open>JSON documents\<close>

text \<open>
  The values \<^verbatim>\<open>encoding/json\<close> decodes into an \<^verbatim>\<open>interface{}\<close>; an object is a
  \<^verbatim>\<open>map[string]interface{}\<close>. A number stands for the \<^verbatim>\<open>float64\<close> that the decoder
  produced, up to \<^verbatim>\<open>==\<close> (it is never NaN), so that \<^verbatim>\<open>reflect.DeepEqual\<close> on two such
  values is equality of the values.
\<close>

datatype json =
    JNull
  | JBool bool
  | JNumber int
  | JString string
  | JArray "json list"
  | JObject "(string, json) fmap"

text \<open>
  \<^verbatim>\<open>couchdb.JSONDoc\<close>, of which the file reads and writes the map \<^verbatim>\<open>M\<close> only. Reading a
  key of a \<^verbatim>\<open>nil\<close> map gives the same as reading a key that is missing.
\<close>

record JSONDoc =
  doc_M :: "(string, json) fmap"

text \<open>\<^verbatim>\<open>m[key].(string)\<close>: the assertion panics (\<open>None\<close>) unless the key holds a string.\<close>

definition assertString :: "json option \<Rightarrow> string option" where
  "assertString v = (case v of Some (JString str) \<Rightarrow> Some str | _ \<Rightarrow> None)"

definition SetRev :: "JSONDoc \<Rightarrow> string \<Rightarrow> JSONDoc" where
  "SetRev doc r = doc\<lparr>doc_M := fmupd ''_rev'' (JString r) (doc_M doc)\<rparr>"

text \<open>
  \<^verbatim>\<open>docHasChanges\<close> deletes and restores keys of both documents: it returns the two
  documents as it leaves them and its result, or \<open>None\<close> when a type assertion panics.
\<close>

definition docHasChanges :: "JSONDoc \<Rightarrow> JSONDoc \<Rightarrow> (JSONDoc \<times> JSONDoc \<times> bool) option" where
  "docHasChanges newDoc doc =
     (case assertString (fmlookup (doc_M newDoc) ''_id'') of
        None \<Rightarrow> None
      | Some newID \<Rightarrow>
     (case assertString (fmlookup (doc_M newDoc) ''_rev'') of
        None \<Rightarrow> None
      | Some newRev \<Rightarrow>
     (case assertString (fmlookup (doc_M doc) ''_rev'') of
        None \<Rightarrow> None
      | Some remoteRev \<Rightarrow>
         (let newM = fmdrop ''_rev'' (fmdrop ''_id'' (doc_M newDoc));
              m = fmdrop ''_rev'' (fmdrop ''_id'' (doc_M doc));
              isEqual = (newM = m);
              newM' = fmupd ''_rev'' (JString newRev) (fmupd ''_id'' (JString newID) newM);
              m' = fmupd ''_rev'' (JString remoteRev) m
          in Some (newDoc\<lparr>doc_M := newM'\<rparr>, doc\<lparr>doc_M := m'\<rparr>, \<not> isEqual)))))"

subsection \<open>Files and directories\<close>

type_synonym Time = int

text \<open>The fields of \<^verbatim>\<open>vfs.FileDoc\<close> and \<^verbatim>\<open>vfs.DirDoc\<close> that the file reads.\<close>

record FileDoc =
  file_DocID :: string
  file_DocRev :: string
  file_DocName :: string
  file_DirID :: string
  file_Tags :: "string slice"
  file_MD5Sum :: "8 word list"
  file_ByteSize :: int
  file_Mime :: string
  file_Executable :: bool
  file_CreatedAt :: Time
  file_UpdatedAt :: Time
  file_ReferencedBy :: "DocReference slice"

record DirDoc =
  dir_DocID :: string
  dir_DocRev :: string
  dir_DocName :: string
  dir_DirID :: string
  dir_Tags :: "string slice"
  dir_CreatedAt :: Time
  dir_UpdatedAt :: Time

text \<open>
  Modelled from the spec: \<^verbatim>\<open>vfs.DirOrFileDoc\<close> and its method \<^verbatim>\<open>Refine\<close> are not in the
  file. The spec describes a nullable "directory or file" union decided at run time:
  \<^verbatim>\<open>Refine\<close> gives the directory, the file, or neither.
\<close>

datatype DirOrFileDoc = IsDir DirDoc | IsFile FileDoc | Neither

fun Refine :: "DirOrFileDoc \<Rightarrow> DirDoc option \<times> FileDoc option" where
  "Refine (IsDir d) = (Some d, None)"
| "Refine (IsFile f) = (None, Some f)"
| "Refine Neither = (None, None)"

text \<open>\<^verbatim>\<open>reflect.DeepEqual\<close> on two \<^verbatim>\<open>[]string\<close>: a \<^verbatim>\<open>nil\<close> slice differs from an empty one.\<close>

definition fileHasChanges :: "FileDoc \<Rightarrow> FileDoc \<Rightarrow> bool" where
  "fileHasChanges newFileDoc remoteFileDoc =
     (if file_DocName newFileDoc \<noteq> file_DocName remoteFileDoc then True
      else if \<not> (file_Tags newFileDoc = file_Tags remoteFileDoc) then True
      else False)"

section \<open>Library functions\<close>

text \<open>\<^verbatim>\<open>base64.StdEncoding.EncodeToString\<close>: the standard alphabet, with padding.\<close>

definition encodeStd :: string where
  "encodeStd = ''ABCDEFGHIJKLMNOPQRSTUVWXYZabcdefghijklmnopqrstuvwxyz0123456789+/''"

definition enc64 :: "nat \<Rightarrow> char" where
  "enc64 n = encodeStd ! n"

fun EncodeToString :: "8 word list \<Rightarrow> string" where
  "EncodeToString [] = []"
| "EncodeToString [a] =
     [enc64 (unat a div 4), enc64 (unat a mod 4 * 16), CHR ''='', CHR ''='']"
| "EncodeToString [a, b] =
     [enc64 (unat a div 4), enc64 (unat a mod 4 * 16 + unat b div 16),
      enc64 (unat b mod 16 * 4), CHR ''='']"
| "EncodeToString (a # b # c # rest) =
     [enc64 (unat a div 4), enc64 (unat a mod 4 * 16 + unat b div 16),
      enc64 (unat b mod 16 * 4 + unat c div 64), enc64 (unat c mod 64)] @ EncodeToString rest"

text \<open>\<^verbatim>\<open>strconv.FormatInt(i, 10)\<close> and \<^verbatim>\<open>strconv.FormatBool\<close>.\<close>

fun digitsOf :: "nat \<Rightarrow> string" where
  "digitsOf n =
     (if n < 10 then [char_of (48 + n)] else digitsOf (n div 10) @ [char_of (48 + n mod 10)])"

declare digitsOf.simps [simp del]

definition FormatInt :: "int \<Rightarrow> string" where
  "FormatInt i = (if i < 0 then CHR ''-'' # digitsOf (nat (- i)) else digitsOf (nat i))"

definition FormatBool :: "bool \<Rightarrow> string" where
  "FormatBool b = (if b then ''true'' else ''false'')"

text \<open>\<^verbatim>\<open>strings.Join\<close>.\<close>

fun Join :: "string list \<Rightarrow> string \<Rightarrow> string" where
  "Join [] sep = []"
| "Join [a] sep = a"
| "Join (a # b # rest) sep = a @ sep @ Join (b # rest) sep"

definition MethodGet :: string where "MethodGet = ''GET''"
definition MethodPost :: string where "MethodPost = ''POST''"
definition MethodPut :: string where "MethodPut = ''PUT''"
definition MethodPatch :: string where "MethodPatch = ''PATCH''"
definition MethodDelete :: string where "MethodDelete = ''DELETE''"

text \<open>
  \<^verbatim>\<open>multierror.Append(err, e)\<close> with an \<^verbatim>\<open>e\<close> that is not itself a multi-error: a
  \<^verbatim>\<open>nil\<close> error starts a new list, a multi-error is extended, any other error becomes
  the first element.
\<close>

fun multierror_Append :: "Err option \<Rightarrow> Err \<Rightarrow> Err option" where
  "multierror_Append None e = Some (MultiError [e])"
| "multierror_Append (Some (MultiError es)) e = Some (MultiError (es @ [e]))"
| "multierror_Append (Some err) e = Some (MultiError [err, e])"

section \<open>Requests, the environment and the state\<close>

datatype Body = NoBody | BytesBody string | FileBody File

text \<open>\<^verbatim>\<open>request.Options\<close>, as the file fills it.\<close>

record Request =
  rq_Domain :: string
  rq_Scheme :: string
  rq_Method :: string
  rq_Path :: string
  rq_Headers :: "string \<rightharpoonup> string"
  rq_Queries :: Values
  rq_Body :: Body
  rq_NoResponse :: bool

text \<open>
  What a run does to the outside, in order: the requests it sends, the content streams
  it opens (with the result of the attempt) and closes, and the lines it logs (the
  message of the call and the error value passed to it).
\<close>

datatype Event =
    Sent Request
  | Opened FileDoc "Err + File"
  | Closed File
  | Logged string "Err option"

text \<open>\<^verbatim>\<open>vfs.DocPatch\<close>, \<^verbatim>\<open>jsonapi.ObjectMarshalling\<close> and \<^verbatim>\<open>jsonapi.Document\<close>, as the file fills them.\<close>

record DocPatch =
  patch_Name :: string
  patch_DirID :: string
  patch_Tags :: "string slice"
  patch_UpdatedAt :: Time

record ObjectMarshalling =
  obj_Type :: string
  obj_ID :: string
  obj_Attributes :: string
  obj_Meta_Rev :: string

record Document =
  doc_Data :: string

text \<open>The values the file passes to \<^verbatim>\<open>json.Marshal\<close> and \<^verbatim>\<open>request.WriteJSON\<close>.\<close>

datatype GoValue =
    VRefs "DocReference slice"
  | VPatch DocPatch
  | VObject ObjectMarshalling
  | VDocument Document
  | VMap "(string, json) fmap"

text \<open>
  The collaborators of the file: the transport (\<^verbatim>\<open>request.Req\<close> answers with an error
  or with the body of the response, and may depend on everything that happened
  before), the file system, the local document store, the JSON encoder and decoders
  and the formatting of times. \<^verbatim>\<open>bindDirOrFile\<close> decodes the body of a response with
  \<^verbatim>\<open>encoding/json\<close> and \<^verbatim>\<open>jsonapi\<close>: its result, an error, \<^verbatim>\<open>nil\<close> or a document, is
  taken from the environment.
\<close>

record Env =
  env_consts :: Consts
  Req :: "Event list \<Rightarrow> Request \<Rightarrow> Err + string"
  OpenFile :: "Event list \<Rightarrow> FileDoc \<Rightarrow> Err + File"
  GetDoc :: "string \<Rightarrow> string \<Rightarrow> Err + JSONDoc"
  Marshal :: "GoValue \<Rightarrow> Err + string"
  WriteJSON :: "GoValue \<Rightarrow> Err + string"
  ReadJSON :: "string \<Rightarrow> Err + JSONDoc"
  bindDirOrFile :: "string \<Rightarrow> Err + DirOrFileDoc option"
  FormatRFC1123 :: "Time \<Rightarrow> string"

record State =
  opts :: SendOptions
  trace :: "Event list"

text \<open>A call returns, with the state it leaves, or panics, in the state reached.\<close>

datatype 'a Outcome = Panic State | Return State 'a

definition emit :: "Event \<Rightarrow> State \<Rightarrow> State" where
  "emit e s = s\<lparr>trace := trace s @ [e]\<rparr>"

definition request_Req :: "Env \<Rightarrow> Request \<Rightarrow> State \<Rightarrow> State \<times> (Err + string)" where
  "request_Req env rq s = (emit (Sent rq) s, Req env (trace s) rq)"

definition errOf :: "Err + 'a \<Rightarrow> Err option" where
  "errOf r = (case r of Inl e \<Rightarrow> Some e | Inr _ \<Rightarrow> None)"

text \<open>A logging call that is made only when \<open>cond\<close> is not \<^verbatim>\<open>nil\<close>.\<close>

definition logIf :: "Err option \<Rightarrow> string \<Rightarrow> Err option \<Rightarrow> State \<Rightarrow> State" where
  "logIf cond msg arg s = (if cond \<noteq> None then emit (Logged msg arg) s else s)"

text \<open>
  A \<^verbatim>\<open>for _, recipient := range opts.Recipients\<close> loop whose body neither breaks nor
  returns; \<open>a\<close> holds the local variables that the body updates.
\<close>

fun forRecipients ::
  "(RecipientInfo \<Rightarrow> State \<Rightarrow> 'a \<Rightarrow> 'a Outcome) \<Rightarrow> RecipientInfo list \<Rightarrow> State \<Rightarrow> 'a \<Rightarrow> 'a Outcome" where
  "forRecipients body [] s a = Return s a"
| "forRecipients body (recipient # rest) s a =
     (case body recipient s a of
        Panic s' \<Rightarrow> Panic s'
      | Return s' a' \<Rightarrow> forRecipients body rest s' a')"

section \<open>The content stream\<close>

text \<open>\<^verbatim>\<open>opts.fileOpts != nil && opts.fileOpts.set\<close>\<close>

definition fileIsSet :: "SendOptions \<Rightarrow> bool" where
  "fileIsSet so = (case fileOpts so of None \<Rightarrow> False | Some fo \<Rightarrow> set_flag fo)"

definition fillDetailsAndOpenFile :: "Env \<Rightarrow> FileDoc \<Rightarrow> State \<Rightarrow> State \<times> Err option" where
  "fillDetailsAndOpenFile env fileDoc s =
     (if fileIsSet (opts s) then (s, None)
      else
       (let k = env_consts env;
            (s1, refs) =
              (if Selector (opts s) = SelectorReferencedBy k
               then (let (o1, shared) = getSharedReferences k (opts s)
                     in (s\<lparr>opts := o1\<rparr>, Marshal env (VRefs shared)))
               else (s, Inr []))
        in case refs of
             Inl err \<Rightarrow> (s1, Some err)
           | Inr refs \<Rightarrow>
              (let q = map_of
                     [(QueryParamType k, [FileType k]),
                      (QueryParamName k, [file_DocName fileDoc]),
                      (QueryParamExecutable k, [FormatBool (file_Executable fileDoc)]),
                      (QueryParamCreatedAt k, [FormatRFC1123 env (file_CreatedAt fileDoc)]),
                      (QueryParamUpdatedAt k, [FormatRFC1123 env (file_UpdatedAt fileDoc)]),
                      (QueryParamReferencedBy k, [refs])];
                   res = OpenFile env (trace s1) fileDoc;
                   s2 = emit (Opened fileDoc res) s1
               in case res of
                    Inl err \<Rightarrow> (s2, Some err)
                  | Inr c \<Rightarrow>
                     (s2\<lparr>opts := (opts s2)\<lparr>fileOpts := Some
                         \<lparr>contentlength = FormatInt (file_ByteSize fileDoc),
                          mime = file_Mime fileDoc,
                          md5 = EncodeToString (file_MD5Sum fileDoc),
                          queries = q,
                          content = c,
                          set_flag = True\<rparr>\<rparr>\<rparr>, None))))"

text \<open>The error that \<^verbatim>\<open>Close\<close> returns is dropped by every caller (the call is deferred).\<close>

definition closeFile :: "State \<Rightarrow> State" where
  "closeFile s =
     (case fileOpts (opts s) of
        None \<Rightarrow> s
      | Some fo \<Rightarrow> if set_flag fo then emit (Closed (content fo)) s else s)"

text \<open>\<^verbatim>\<open>defer opts.closeFile()\<close>: the call runs when the function returns and when it panics.\<close>

definition defer_closeFile :: "'a Outcome \<Rightarrow> 'a Outcome" where
  "defer_closeFile r =
     (case r of Panic s \<Rightarrow> Panic (closeFile s) | Return s a \<Rightarrow> Return (closeFile s) a)"

section \<open>Requests to one recipient\<close>

definition sendDocToRecipient ::
  "Env \<Rightarrow> RecipientInfo \<Rightarrow> JSONDoc \<Rightarrow> string \<Rightarrow> State \<Rightarrow> State \<times> Err option" where
  "sendDocToRecipient env rec doc method s =
     (case WriteJSON env (VMap (doc_M doc)) of
        Inl err \<Rightarrow> (s, Some err)
      | Inr body \<Rightarrow>
         (let (s1, res) = request_Req env
                \<lparr>rq_Domain = URL rec, rq_Scheme = Scheme rec, rq_Method = method,
                 rq_Path = Path (opts s),
                 rq_Headers = map_of
                   [(''Content-Type'', ''application/json''),
                    (''Accept'', ''application/json''),
                    (''Authorization'', ''Bearer '' @ Token rec)],
                 rq_Queries = Map.empty,
                 rq_Body = BytesBody body,
                 rq_NoResponse = True\<rparr> s
          in (s1, errOf res)))"

definition sendFileToRecipient :: "Env \<Rightarrow> RecipientInfo \<Rightarrow> string \<Rightarrow> State \<Rightarrow> Err option Outcome" where
  "sendFileToRecipient env recipient method s =
     (case fileOpts (opts s) of
        None \<Rightarrow> Panic s
      | Some fo \<Rightarrow>
         if \<not> set_flag fo then Return s (Some (ErrorsNew ''[sharing] fileOpts were not set''))
         else
          (let fo1 = (if DocRev (opts s) \<noteq> []
                      then fo\<lparr>queries := Add (queries fo) ''rev'' (DocRev (opts s))\<rparr>
                      else fo);
               s1 = s\<lparr>opts := (opts s)\<lparr>fileOpts := Some fo1\<rparr>\<rparr>;
               (s2, res) = request_Req env
                 \<lparr>rq_Domain = URL recipient, rq_Scheme = Scheme recipient, rq_Method = method,
                  rq_Path = Path (opts s1),
                  rq_Headers = map_of
                    [(''Content-Type'', mime fo1),
                     (''Accept'', ''application/vnd.api+json''),
                     (''Content-Length'', contentlength fo1),
                     (''Content-MD5'', md5 fo1),
                     (''Authorization'', ''Bearer '' @ Token recipient)],
                  rq_Queries = queries fo1,
                  rq_Body = FileBody (content fo1),
                  rq_NoResponse = True\<rparr> s1
           in Return s2 (errOf res)))"

definition sendPatchToRecipient ::
  "Env \<Rightarrow> Document \<Rightarrow> RecipientInfo \<Rightarrow> string \<Rightarrow> State \<Rightarrow> State \<times> Err option" where
  "sendPatchToRecipient env patch recipient dirID s =
     (let k = env_consts env in
      case WriteJSON env (VDocument patch) of
        Inl err \<Rightarrow> (s, Some err)
      | Inr body \<Rightarrow>
         (case getParentDirID k (opts s) dirID of
            Inl err \<Rightarrow> (s, Some err)
          | Inr parentID \<Rightarrow>
             (let (s1, res) = request_Req env
                    \<lparr>rq_Domain = URL recipient, rq_Scheme = Scheme recipient,
                     rq_Method = MethodPatch,
                     rq_Path = Path (opts s),
                     rq_Headers = map_of
                       [(''Content-Type'', ''application/vnd.api+json''),
                        (''Authorization'', ''Bearer '' @ Token recipient)],
                     rq_Queries = map_of
                       [(QueryParamRev k, [DocRev (opts s)]),
                        (QueryParamType k, [Type (opts s)]),
                        (QueryParamDirID k, [parentID])],
                     rq_Body = BytesBody body,
                     rq_NoResponse = True\<rparr> s
              in (s1, errOf res))))"

definition updateReferencesAtRecipient ::
  "Env \<Rightarrow> string \<Rightarrow> DocReference slice \<Rightarrow> RecipientInfo \<Rightarrow> State \<Rightarrow> State \<times> Err option" where
  "updateReferencesAtRecipient env method refs recipient s =
     (case Marshal env (VRefs refs) of
        Inl err \<Rightarrow> (s, Some err)
      | Inr data \<Rightarrow>
         (case WriteJSON env (VDocument \<lparr>doc_Data = data\<rparr>) of
            Inl err \<Rightarrow> (s, Some err)
          | Inr body \<Rightarrow>
             (let path = (if method = MethodPost
                          then ''/files/'' @ DocID (opts s) @ ''/relationships/referenced_by''
                          else ''/sharings/files/'' @ DocID (opts s) @ ''/referenced_by'');
                  (s1, res) = request_Req env
                    \<lparr>rq_Domain = URL recipient, rq_Scheme = Scheme recipient,
                     rq_Method = method,
                     rq_Path = path,
                     rq_Headers = map_of
                       [(''Content-Type'', ''application/vnd.api+json''),
                        (''Authorization'', ''Bearer '' @ Token recipient)],
                     rq_Queries = Map.empty,
                     rq_Body = BytesBody body,
                     rq_NoResponse = True\<rparr> s
              in (s1, errOf res))))"

text \<open>
  \<^verbatim>\<open>generateDirOrFilePatch\<close> reads the file document when the directory is \<^verbatim>\<open>nil\<close>; with
  both \<^verbatim>\<open>nil\<close> it panics (\<open>None\<close>).
\<close>

definition generateDirOrFilePatch ::
  "Env \<Rightarrow> DirDoc option \<Rightarrow> FileDoc option \<Rightarrow> (Err + Document) option" where
  "generateDirOrFilePatch env dirDoc fileDoc =
     (case (case dirDoc of
              Some d \<Rightarrow> Some (\<lparr>patch_Name = dir_DocName d, patch_DirID = dir_DirID d,
                               patch_Tags = dir_Tags d, patch_UpdatedAt = dir_UpdatedAt d\<rparr>,
                             dir_DocID d, dir_DocRev d)
            | None \<Rightarrow>
               (case fileDoc of
                  Some f \<Rightarrow> Some (\<lparr>patch_Name = file_DocName f, patch_DirID = file_DirID f,
                                   patch_Tags = file_Tags f, patch_UpdatedAt = file_UpdatedAt f\<rparr>,
                                 file_DocID f, file_DocRev f)
                | None \<Rightarrow> None)) of
        None \<Rightarrow> None
      | Some (patch, ident, rv) \<Rightarrow>
         Some (case Marshal env (VPatch patch) of
                 Inl err \<Rightarrow> Inl err
               | Inr attrs \<Rightarrow>
                  (case Marshal env (VObject
                           \<lparr>obj_Type = Files (env_consts env), obj_ID = ident,
                            obj_Attributes = attrs, obj_Meta_Rev = rv\<rparr>) of
                     Inl err \<Rightarrow> Inl err
                   | Inr data \<Rightarrow> Inr \<lparr>doc_Data = data\<rparr>)))"

section \<open>Reading the state of a recipient\<close>

definition getDocAtRecipient ::
  "Env \<Rightarrow> string \<Rightarrow> string \<Rightarrow> RecipientInfo \<Rightarrow> State \<Rightarrow> State \<times> (Err + JSONDoc)" where
  "getDocAtRecipient env doctype docID recInfo s =
     (let (s1, res) = request_Req env
            \<lparr>rq_Domain = URL recInfo, rq_Scheme = Scheme recInfo, rq_Method = MethodGet,
             rq_Path = ''/data/'' @ doctype @ ''/'' @ docID,
             rq_Headers = map_of
               [(''Content-Type'', ''application/json''),
                (''Accept'', ''application/json''),
                (''Authorization'', ''Bearer '' @ Token recInfo)],
             rq_Queries = Map.empty,
             rq_Body = NoBody,
             rq_NoResponse = False\<rparr> s
      in case res of
           Inl err \<Rightarrow> (s1, Inl err)
         | Inr body \<Rightarrow> (s1, ReadJSON env body))"

text \<open>
  \<^verbatim>\<open>err.(*request.Error)\<close> panics on an error of any other type; a request error whose
  title is "Not Found" becomes \<^verbatim>\<open>ErrRemoteDocDoesNotExist\<close>.
\<close>

definition getDirOrFileMetadataAtRecipient ::
  "Env \<Rightarrow> string \<Rightarrow> RecipientInfo \<Rightarrow> State \<Rightarrow> (Err + DirDoc option \<times> FileDoc option) Outcome" where
  "getDirOrFileMetadataAtRecipient env ident recInfo s =
     (let (s1, res) = request_Req env
            \<lparr>rq_Domain = URL recInfo, rq_Scheme = Scheme recInfo, rq_Method = MethodGet,
             rq_Path = ''/files/'' @ ident,
             rq_Headers = map_of
               [(''Content-Type'', ''application/json''),
                (''Accept-Encoding'', ''application/json''),
                (''Authorization'', ''Bearer '' @ Token recInfo)],
             rq_Queries = Map.empty,
             rq_Body = NoBody,
             rq_NoResponse = False\<rparr> s
      in case res of
           Inl err \<Rightarrow>
            (case err of
               RequestError title detail \<Rightarrow>
                 if title = ''Not Found'' then Return s1 (Inl ErrRemoteDocDoesNotExist)
                 else Return s1 (Inl err)
             | _ \<Rightarrow> Panic s1)
         | Inr body \<Rightarrow>
            (case bindDirOrFile env body of
               Inl err \<Rightarrow> Return s1 (Inl err)
             | Inr None \<Rightarrow> Return s1 (Inl ErrBadFileFormat)
             | Inr (Some dirOrFileDoc) \<Rightarrow> Return s1 (Inr (Refine dirOrFileDoc))))"

definition getDirOrFileRevAtRecipient ::
  "Env \<Rightarrow> string \<Rightarrow> RecipientInfo \<Rightarrow> State \<Rightarrow> (Err + string) Outcome" where
  "getDirOrFileRevAtRecipient env docID recipient s =
     (case getDirOrFileMetadataAtRecipient env docID recipient s of
        Panic s1 \<Rightarrow> Panic s1
      | Return s1 (Inl err) \<Rightarrow> Return s1 (Inl err)
      | Return s1 (Inr (dirDoc, fileDoc)) \<Rightarrow>
         Return s1 (Inr (case dirDoc of
                           Some d \<Rightarrow> dir_DocRev d
                         | None \<Rightarrow> (case fileDoc of Some f \<Rightarrow> file_DocRev f | None \<Rightarrow> []))))"

section \<open>The operations\<close>

text \<open>
  The operations that the sharing workers call. \<^verbatim>\<open>SendData\<close>, the entry point of the
  job, reads its message and the instance and then calls \<^verbatim>\<open>SendDir\<close>, \<^verbatim>\<open>SendFile\<close> or
  \<^verbatim>\<open>SendDoc\<close>; it is not part of the model.
\<close>

subsection \<open>JSON documents\<close>

text \<open>The body of the loop of \<^verbatim>\<open>DeleteDoc\<close>; \<open>errFinal\<close> is the error it accumulates.\<close>

definition DeleteDoc_recipient :: "Env \<Rightarrow> RecipientInfo \<Rightarrow> State \<Rightarrow> Err option \<Rightarrow> Err option Outcome" where
  "DeleteDoc_recipient env recipient s errFinal =
     (let (s1, res) = getDocAtRecipient env (DocType (opts s)) (DocID (opts s)) recipient s
      in case res of
           Inl err \<Rightarrow>
             Return s1 (multierror_Append errFinal
                          (Errorf ''Error while trying to get remote doc : %s'' err))
         | Inr doc \<Rightarrow>
            (case assertString (fmlookup (doc_M doc) ''_rev'') of
               None \<Rightarrow> Panic s1
             | Some rv \<Rightarrow>
                (let (s2, resSend) = request_Req env
                       \<lparr>rq_Domain = URL recipient, rq_Scheme = Scheme recipient,
                        rq_Method = MethodDelete,
                        rq_Path = Path (opts s1),
                        rq_Headers = map_of
                          [(''Content-Type'', ''application/json''),
                           (''Accept'', ''application/json''),
                           (''Authorization'', ''Bearer '' @ Token recipient)],
                        rq_Queries = map_of [(''rev'', [rv])],
                        rq_Body = NoBody,
                        rq_NoResponse = True\<rparr> s1
                 in Return s2
                      (case resSend of
                         Inl errSend \<Rightarrow>
                           multierror_Append errFinal
                             (Errorf ''Error while trying to share data : %s'' errSend)
                       | Inr _ \<Rightarrow> errFinal))))"

definition DeleteDoc :: "Env \<Rightarrow> State \<Rightarrow> Err option Outcome" where
  "DeleteDoc env s = forRecipients (DeleteDoc_recipient env) (Recipients (opts s)) s None"

definition SendDoc_recipient :: "Env \<Rightarrow> JSONDoc \<Rightarrow> RecipientInfo \<Rightarrow> State \<Rightarrow> unit \<Rightarrow> unit Outcome" where
  "SendDoc_recipient env doc rec s u =
     (let (s1, errs) = sendDocToRecipient env rec doc MethodPost s
      in Return (logIf errs
           ''[sharing] An error occurred while trying to send a document to a recipient:''
           errs s1) ())"

definition SendDoc :: "Env \<Rightarrow> State \<Rightarrow> Err option Outcome" where
  "SendDoc env s =
     (case GetDoc env (DocType (opts s)) (DocID (opts s)) of
        Inl err \<Rightarrow> Return s (Some err)
      | Inr doc \<Rightarrow>
         (let doc1 = doc\<lparr>doc_M := fmdrop ''_rev'' (fmdrop ''_id'' (doc_M doc))\<rparr>
          in case forRecipients (SendDoc_recipient env doc1) (Recipients (opts s)) s () of
               Panic s' \<Rightarrow> Panic s'
             | Return s' u \<Rightarrow> Return s' None))"

text \<open>
  The body of the loop of \<^verbatim>\<open>UpdateDoc\<close>. The local document \<^verbatim>\<open>doc\<close> is shared by
  all iterations and changed by \<^verbatim>\<open>docHasChanges\<close> and \<^verbatim>\<open>SetRev\<close>: the body returns it.
  The last logging call passes \<^verbatim>\<open>err\<close>, which is \<^verbatim>\<open>nil\<close> there.
\<close>

definition UpdateDoc_recipient :: "Env \<Rightarrow> RecipientInfo \<Rightarrow> State \<Rightarrow> JSONDoc \<Rightarrow> JSONDoc Outcome" where
  "UpdateDoc_recipient env rec s doc =
     (let (s1, res) = getDocAtRecipient env (DocType (opts s)) (DocID (opts s)) rec s
      in case res of
           Inl err \<Rightarrow>
             Return (emit (Logged
               ''[sharing] An error occurred while trying to get remote doc : '' (Some err)) s1) doc
         | Inr remoteDoc \<Rightarrow>
            (case docHasChanges doc remoteDoc of
               None \<Rightarrow> Panic s1
             | Some (doc1, remoteDoc1, changed) \<Rightarrow>
                if \<not> changed then Return s1 doc1
                else
                 (case assertString (fmlookup (doc_M remoteDoc1) ''_rev'') of
                    None \<Rightarrow> Panic s1
                  | Some rv \<Rightarrow>
                     (let doc2 = SetRev doc1 rv;
                          (s2, errs) = sendDocToRecipient env rec doc2 MethodPut s1
                      in Return (logIf errs
                           ''[sharing] An error occurred while trying to send an update: ''
                           None s2) doc2))))"

definition UpdateDoc :: "Env \<Rightarrow> State \<Rightarrow> Err option Outcome" where
  "UpdateDoc env s =
     (case GetDoc env (DocType (opts s)) (DocID (opts s)) of
        Inl err \<Rightarrow> Return s (Some err)
      | Inr doc \<Rightarrow>
         (case forRecipients (UpdateDoc_recipient env) (Recipients (opts s)) s doc of
            Panic s' \<Rightarrow> Panic s'
          | Return s' doc' \<Rightarrow> Return s' None))"

subsection \<open>Files\<close>

definition SendFile_recipient :: "Env \<Rightarrow> FileDoc \<Rightarrow> RecipientInfo \<Rightarrow> State \<Rightarrow> unit \<Rightarrow> unit Outcome" where
  "SendFile_recipient env fileDoc rec s u =
     (case sendFileToRecipient env rec MethodPost s of
        Panic s1 \<Rightarrow> Panic s1
      | Return s1 err \<Rightarrow>
          Return (logIf err
            ''[sharing] An error occurred while trying to share file %v: %v'' err s1) ())"

text \<open>
  \<^verbatim>\<open>SendFile\<close>: once the details are filled the deferred \<^verbatim>\<open>closeFile\<close> is registered;
  \<^verbatim>\<open>opts.fileOpts\<close> is then not \<^verbatim>\<open>nil\<close> (the first branch stands for the \<^verbatim>\<open>nil\<close>
  dereference).
\<close>

definition SendFile :: "Env \<Rightarrow> FileDoc \<Rightarrow> State \<Rightarrow> Err option Outcome" where
  "SendFile env fileDoc s =
     (let (s1, err) = fillDetailsAndOpenFile env fileDoc s
      in case err of
           Some e \<Rightarrow> Return s1 (Some e)
         | None \<Rightarrow>
            defer_closeFile
              (case fileOpts (opts s1) of
                 None \<Rightarrow> Panic s1
               | Some fo \<Rightarrow>
                  (let k = env_consts env;
                       fo1 = fo\<lparr>queries := Add (queries fo) (QueryParamDirID k) (SharedWithMeDirID k)\<rparr>;
                       s2 = s1\<lparr>opts := (opts s1)\<lparr>fileOpts := Some fo1\<rparr>\<rparr>
                   in case forRecipients (SendFile_recipient env fileDoc) (Recipients (opts s2)) s2 () of
                        Panic s' \<Rightarrow> Panic s'
                      | Return s' u \<Rightarrow> Return s' None)))"

text \<open>
  The body of the loop of \<^verbatim>\<open>UpdateOrPatchFile\<close>. A remote document that is not a file
  leaves \<^verbatim>\<open>remoteFileDoc\<close> \<^verbatim>\<open>nil\<close>, and reading its hash panics.
\<close>

definition UpdateOrPatchFile_recipient ::
  "Env \<Rightarrow> string \<Rightarrow> FileDoc \<Rightarrow> RecipientInfo \<Rightarrow> State \<Rightarrow> unit \<Rightarrow> unit Outcome" where
  "UpdateOrPatchFile_recipient env md5sum fileDoc recipient s u =
     (let k = env_consts env in
      case getDirOrFileMetadataAtRecipient env (DocID (opts s)) recipient s of
        Panic s1 \<Rightarrow> Panic s1
      | Return s1 (Inl err) \<Rightarrow>
         (if err = ErrRemoteDocDoesNotExist
          then (case SendFile env fileDoc s1 of
                  Panic s2 \<Rightarrow> Panic s2
                | Return s2 errf \<Rightarrow>
                    Return (logIf errf
                      ''[sharing] An error occurred while trying to send file: '' errf s2) ())
          else Return (emit (Logged ''[sharing] Could not get data at %v: %v'' (Some err)) s1) ())
      | Return s1 (Inr (dirDoc, None)) \<Rightarrow> Panic s1
      | Return s1 (Inr (dirDoc, Some remoteFileDoc)) \<Rightarrow>
         (let md5AtRec = EncodeToString (file_MD5Sum remoteFileDoc);
              s2 = s1\<lparr>opts := (opts s1)\<lparr>DocRev := file_DocRev remoteFileDoc\<rparr>\<rparr>
          in if md5sum = md5AtRec
             then
              (if \<not> fileHasChanges fileDoc remoteFileDoc
               then
                (if Selector (opts s2) = SelectorReferencedBy k
                 then
                  (let (o3, refs) = findNewRefs k (opts s2)
                                      (file_ReferencedBy fileDoc) (file_ReferencedBy remoteFileDoc);
                       s3 = s2\<lparr>opts := o3\<rparr>
                   in if refs \<noteq> None
                      then (let (s4, erru) = updateReferencesAtRecipient env MethodPost refs recipient s3
                            in Return (logIf erru
                                 ''[sharing] An error occurred  while trying to update references: ''
                                 erru s4) ())
                      else Return s3 ())
                 else Return s2 ())
               else
                (case generateDirOrFilePatch env None (Some fileDoc) of
                   None \<Rightarrow> Panic s2
                 | Some (Inl errp) \<Rightarrow>
                     Return (emit (Logged ''[sharing] Could not generate patch for file %v: %v''
                                     (Some errp)) s2) ()
                 | Some (Inr patch) \<Rightarrow>
                    (let (s3, errsp) = sendPatchToRecipient env patch recipient (file_DirID fileDoc) s2
                     in Return (logIf errsp
                          ''[sharing] An error occurred while trying to send patch: '' errsp s3) ())))
             else
              (let (s3, err) = fillDetailsAndOpenFile env fileDoc s2
               in case err of
                    Some e \<Rightarrow>
                      Return (emit (Logged ''[sharing] An error occurred while trying to open %v: %v''
                                      (Some e)) s3) ()
                  | None \<Rightarrow>
                     (case sendFileToRecipient env recipient MethodPut s3 of
                        Panic s4 \<Rightarrow> Panic s4
                      | Return s4 err' \<Rightarrow>
                          Return (logIf err'
                            ''[sharing] An error occurred while trying to share an update of file %v to a recipient: %v''
                            err' s4) ()))))"

definition UpdateOrPatchFile :: "Env \<Rightarrow> FileDoc \<Rightarrow> State \<Rightarrow> Err option Outcome" where
  "UpdateOrPatchFile env fileDoc s =
     (let md5sum = EncodeToString (file_MD5Sum fileDoc)
      in defer_closeFile
           (case forRecipients (UpdateOrPatchFile_recipient env md5sum fileDoc)
                   (Recipients (opts s)) s () of
              Panic s' \<Rightarrow> Panic s'
            | Return s' u \<Rightarrow> Return s' None))"

text \<open>
  \<^verbatim>\<open>RemoveDirOrFileFromSharing\<close>: the references are read once, before the loop.
\<close>

definition RemoveDirOrFileFromSharing_recipient ::
  "Env \<Rightarrow> DocReference slice \<Rightarrow> RecipientInfo \<Rightarrow> State \<Rightarrow> unit \<Rightarrow> unit Outcome" where
  "RemoveDirOrFileFromSharing_recipient env shared recipient s u =
     (let (s1, errs) = updateReferencesAtRecipient env MethodDelete shared recipient s
      in Return (logIf errs ''[sharings] Could not update reference at recipient: %v'' errs s1) ())"

definition RemoveDirOrFileFromSharing :: "Env \<Rightarrow> State \<Rightarrow> Err option Outcome" where
  "RemoveDirOrFileFromSharing env s =
     (let (o1, shared) = getSharedReferences (env_consts env) (opts s);
          s1 = s\<lparr>opts := o1\<rparr>
      in case forRecipients (RemoveDirOrFileFromSharing_recipient env shared)
                (Recipients (opts s1)) s1 () of
           Panic s' \<Rightarrow> Panic s'
         | Return s' u \<Rightarrow> Return s' None)"

subsection \<open>Directories, and the deletion of files and directories\<close>

text \<open>The logging call of \<^verbatim>\<open>SendDir\<close> passes \<^verbatim>\<open>err\<close>, which is \<^verbatim>\<open>nil\<close> there.\<close>

definition SendDir_recipient ::
  "Env \<Rightarrow> DirDoc \<Rightarrow> string \<Rightarrow> string \<Rightarrow> RecipientInfo \<Rightarrow> State \<Rightarrow> unit \<Rightarrow> unit Outcome" where
  "SendDir_recipient env dirDoc dirTags parentID recipient s u =
     (let k = env_consts env;
          (s1, res) = request_Req env
            \<lparr>rq_Domain = URL recipient, rq_Scheme = Scheme recipient,
             rq_Method = MethodPost,
             rq_Path = Path (opts s),
             rq_Headers = map_of
               [(''Content-Type'', ''application/json''),
                (''Authorization'', ''Bearer '' @ Token recipient)],
             rq_Queries = map_of
               [(QueryParamTags k, [dirTags]),
                (QueryParamName k, [dir_DocName dirDoc]),
                (QueryParamType k, [DirType k]),
                (QueryParamCreatedAt k, [FormatRFC1123 env (dir_CreatedAt dirDoc)]),
                (QueryParamUpdatedAt k, [FormatRFC1123 env (dir_CreatedAt dirDoc)]),
                (QueryParamDirID k, [parentID])],
             rq_Body = NoBody,
             rq_NoResponse = True\<rparr> s
      in Return (logIf (errOf res)
           ''[sharing] An error occurred while trying to share the directory %v: %v'' None s1) ())"

definition SendDir :: "Env \<Rightarrow> DirDoc \<Rightarrow> State \<Rightarrow> Err option Outcome" where
  "SendDir env dirDoc s =
     (let k = env_consts env;
          dirTags = Join (elems (dir_Tags dirDoc)) (TagSeparator k)
      in case getParentDirID k (opts s) (dir_DirID dirDoc) of
           Inl err \<Rightarrow> Return s (Some err)
         | Inr parentID \<Rightarrow>
            (case forRecipients (SendDir_recipient env dirDoc dirTags parentID)
                    (Recipients (opts s)) s () of
               Panic s' \<Rightarrow> Panic s'
             | Return s' u \<Rightarrow> Return s' None))"

text \<open>The loop of \<^verbatim>\<open>PatchDir\<close> returns from inside its body when the revision cannot be read.\<close>

fun PatchDir_loop ::
  "Env \<Rightarrow> Document \<Rightarrow> DirDoc \<Rightarrow> RecipientInfo list \<Rightarrow> State \<Rightarrow> Err option \<Rightarrow> Err option Outcome" where
  "PatchDir_loop env patch dirDoc [] s errFinal = Return s errFinal"
| "PatchDir_loop env patch dirDoc (rec # rest) s errFinal =
     (case getDirOrFileRevAtRecipient env (DocID (opts s)) rec s of
        Panic s1 \<Rightarrow> Panic s1
      | Return s1 (Inl err) \<Rightarrow> Return s1 (Some err)
      | Return s1 (Inr rv) \<Rightarrow>
         (case sendPatchToRecipient env patch rec (dir_DirID dirDoc)
                 (s1\<lparr>opts := (opts s1)\<lparr>DocRev := rv\<rparr>\<rparr>) of
            (s2, None) \<Rightarrow> PatchDir_loop env patch dirDoc rest s2 errFinal
          | (s2, Some err) \<Rightarrow>
              PatchDir_loop env patch dirDoc rest s2
                (multierror_Append errFinal
                   (Errorf ''Error while trying to send a patch: %s'' err))))"

definition PatchDir :: "Env \<Rightarrow> DirDoc \<Rightarrow> State \<Rightarrow> Err option Outcome" where
  "PatchDir env dirDoc s =
     (case generateDirOrFilePatch env (Some dirDoc) None of
        None \<Rightarrow> Panic s
      | Some (Inl err) \<Rightarrow> Return s (Some err)
      | Some (Inr patch) \<Rightarrow> PatchDir_loop env patch dirDoc (Recipients (opts s)) s None)"

text \<open>
  The body of the loop of \<^verbatim>\<open>DeleteDirOrFile\<close>; \<open>errFinal\<close> is the error it accumulates.
  The function ends with \<^verbatim>\<open>return nil\<close>.
\<close>

definition DeleteDirOrFile_recipient :: "Env \<Rightarrow> RecipientInfo \<Rightarrow> State \<Rightarrow> Err option \<Rightarrow> Err option Outcome" where
  "DeleteDirOrFile_recipient env recipient s errFinal =
     (let k = env_consts env in
      case getDirOrFileRevAtRecipient env (DocID (opts s)) recipient s of
        Panic s1 \<Rightarrow> Panic s1
      | Return s1 (Inl err) \<Rightarrow>
          Return s1 (multierror_Append errFinal
                       (Errorf ''Error while trying to get a revision at %v: %v'' err))
      | Return s1 (Inr rv) \<Rightarrow>
         (let s2 = s1\<lparr>opts := (opts s1)\<lparr>DocRev := rv\<rparr>\<rparr>;
              (s3, res) = request_Req env
                \<lparr>rq_Domain = URL recipient, rq_Scheme = Scheme recipient,
                 rq_Method = MethodDelete,
                 rq_Path = Path (opts s2),
                 rq_Headers = map_of
                   [(''Content-Type'', ''application/json''),
                    (''Authorization'', ''Bearer '' @ Token recipient)],
                 rq_Queries = map_of
                   [(QueryParamRev k, [DocRev (opts s2)]),
                    (QueryParamType k, [Type (opts s2)])],
                 rq_Body = NoBody,
                 rq_NoResponse = True\<rparr> s2
          in Return s3
               (case res of
                  Inl err \<Rightarrow>
                    multierror_Append errFinal
                      (Errorf ''Error while sending request to %v: %v'' err)
                | Inr _ \<Rightarrow> errFinal)))"

definition DeleteDirOrFile :: "Env \<Rightarrow> State \<Rightarrow> Err option Outcome" where
  "DeleteDirOrFile env s =
     (case forRecipients (DeleteDirOrFile_recipient env) (Recipients (opts s)) s None of
        Panic s' \<Rightarrow> Panic s'
      | Return s' errFinal \<Rightarrow> Return s' None)"

section \<open>Observations on a trace\<close>

fun sent :: "Event list \<Rightarrow> Request list" where
  "sent [] = []"
| "sent (Sent rq # es) = rq # sent es"
| "sent (e # es) = sent es"

text \<open>The requests that change something at a recipient.\<close>

definition mutating :: "Event list \<Rightarrow> Request list" where
  "mutating es = filter (\<lambda>rq. rq_Method rq \<noteq> MethodGet) (sent es)"

fun opened :: "Event list \<Rightarrow> File list" where
  "opened [] = []"
| "opened (Opened f (Inr c) # es) = c # opened es"
| "opened (e # es) = opened es"

fun closed :: "Event list \<Rightarrow> File list" where
  "closed [] = []"
| "closed (Closed c # es) = c # closed es"
| "closed (e # es) = closed es"

fun logged :: "Event list \<Rightarrow> (string \<times> Err option) list" where
  "logged [] = []"
| "logged (Logged msg e # es) = (msg, e) # logged es"
| "logged (e # es) = logged es"

text \<open>The state and the result of a call that returned.\<close>

fun finalState :: "'a Outcome \<Rightarrow> State" where
  "finalState (Panic s) = s"
| "finalState (Return s a) = s"

fun returned :: "'a Outcome \<Rightarrow> 'a option" where
  "returned (Panic s) = None"
| "returned (Return s a) = Some a"

section \<open>Notions used in the statements\<close>

text \<open>The key holds a string, so that \<^verbatim>\<open>m[key].(string)\<close> does not panic.\<close>

definition hasString :: "JSONDoc \<Rightarrow> string \<Rightarrow> bool" where
  "hasString doc key = (assertString (fmlookup (doc_M doc) key) \<noteq> None)"

text \<open>The document without the keys \<^verbatim>\<open>_id\<close> and \<^verbatim>\<open>_rev\<close>.\<close>

definition docBody :: "JSONDoc \<Rightarrow> (string, json) fmap" where
  "docBody doc = fmdrop ''_rev'' (fmdrop ''_id'' (doc_M doc))"

text \<open>A short name for each event of a trace: the method and the domain of a request.\<close>

fun label :: "Event \<Rightarrow> string" where
  "label (Sent rq) = rq_Method rq @ '' '' @ rq_Domain rq"
| "label (Opened f (Inr c)) = ''open''"
| "label (Opened f (Inl e)) = ''open fails''"
| "label (Closed c) = ''close''"
| "label (Logged msg e) = ''log''"

section \<open>Concrete inputs\<close>

text \<open>Values for the constants, and a sharing by reference of the file \<open>f1\<close>.\<close>

definition exConsts :: Consts where
  "exConsts =
     \<lparr>SelectorReferencedBy = ''referenced_by'',
      RootDirID = ''root-dir'',
      SharedWithMeDirID = ''shared-with-me-dir'',
      FileType = ''file'',
      DirType = ''directory'',
      Files = ''io.cozy.files'',
      QueryParamType = ''Type'',
      QueryParamName = ''Name'',
      QueryParamExecutable = ''Executable'',
      QueryParamCreatedAt = ''Created_at'',
      QueryParamUpdatedAt = ''Updated_at'',
      QueryParamReferencedBy = ''Referenced_by'',
      QueryParamDirID = ''Dir_id'',
      QueryParamRev = ''rev'',
      QueryParamTags = ''Tags'',
      RefSep = ''/'',
      TagSeparator = '',''\<rparr>"

definition exOpts :: SendOptions where
  "exOpts =
     \<lparr>DocID = ''f1'', DocType = ''io.cozy.files'', Type = ''file'', Recipients = [],
      Path = ''/sharings/doc/io.cozy.files/f1'', DocRev = [],
      Selector = ''referenced_by'', Values = [''albums/a1'', ''albums/a2''],
      sharedRefs = None, fileOpts = None\<rparr>"

definition refA :: DocReference where
  "refA = \<lparr>ref_Type = ''albums'', ref_ID = ''a1''\<rparr>"

definition refB :: DocReference where
  "refB = \<lparr>ref_Type = ''albums'', ref_ID = ''a2''\<rparr>"

definition refC :: DocReference where
  "refC = \<lparr>ref_Type = ''photos'', ref_ID = ''a2''\<rparr>"

definition refD :: DocReference where
  "refD = \<lparr>ref_Type = ''albums'', ref_ID = ''zz''\<rparr>"

text \<open>Two recipients, and a state in which nothing has happened yet.\<close>

definition r1 :: RecipientInfo where
  "r1 = \<lparr>URL = ''r1'', Scheme = ''https'', Token = ''t1''\<rparr>"

definition r2 :: RecipientInfo where
  "r2 = \<lparr>URL = ''r2'', Scheme = ''https'', Token = ''t2''\<rparr>"

definition exOpts2 :: SendOptions where
  "exOpts2 = exOpts\<lparr>Recipients := [r1, r2]\<rparr>"

text \<open>A sharing of the JSON document \<open>d1\<close>, by its id.\<close>

definition exOptsDoc :: SendOptions where
  "exOptsDoc =
     \<lparr>DocID = ''d1'', DocType = ''contacts'', Type = [], Recipients = [r1, r2],
      Path = ''/sharings/doc/contacts/d1'', DocRev = [],
      Selector = [], Values = [''d1''],
      sharedRefs = None, fileOpts = None\<rparr>"

definition exState :: "SendOptions \<Rightarrow> State" where
  "exState so = \<lparr>opts = so, trace = []\<rparr>"

text \<open>A local document, and the answers that a recipient may give for it.\<close>

definition exDoc :: JSONDoc where
  "exDoc = \<lparr>doc_M = fmupd ''_id'' (JString ''d1'') (fmupd ''_rev'' (JString ''2-b'')
                       (fmupd ''name'' (JString ''x'') fmempty))\<rparr>"

definition exRemoteSame :: JSONDoc where
  "exRemoteSame = \<lparr>doc_M = fmupd ''_id'' (JString ''d1'') (fmupd ''_rev'' (JString ''1-a'')
                       (fmupd ''name'' (JString ''x'') fmempty))\<rparr>"

definition exRemoteChanged :: JSONDoc where
  "exRemoteChanged = \<lparr>doc_M = fmupd ''_id'' (JString ''d1'') (fmupd ''_rev'' (JString ''1-a'')
                       (fmupd ''name'' (JString ''y'') fmempty))\<rparr>"

definition exRemoteNoRev :: JSONDoc where
  "exRemoteNoRev = \<lparr>doc_M = fmupd ''_id'' (JString ''d1'') (fmupd ''name'' (JString ''y'') fmempty)\<rparr>"

definition exReadJSON :: "string \<Rightarrow> Err + JSONDoc" where
  "exReadJSON b =
     (if b = ''same'' then Inr exRemoteSame
      else if b = ''changed'' then Inr exRemoteChanged
      else if b = ''norev'' then Inr exRemoteNoRev
      else Inl (OtherError ''invalid character''))"

text \<open>A local file, and the answers that a recipient may give for it.\<close>

definition exFile :: FileDoc where
  "exFile =
     \<lparr>file_DocID = ''f1'', file_DocRev = ''3-c'', file_DocName = ''a.txt'', file_DirID = ''d0'',
      file_Tags = Some [''t''], file_MD5Sum = [1, 2, 3], file_ByteSize = 3,
      file_Mime = ''text/plain'', file_Executable = False, file_CreatedAt = 0,
      file_UpdatedAt = 1, file_ReferencedBy = Some [refA, refB]\<rparr>"

definition exDir :: DirDoc where
  "exDir =
     \<lparr>dir_DocID = ''f1'', dir_DocRev = ''1-d'', dir_DocName = ''dir'', dir_DirID = ''d0'',
      dir_Tags = None, dir_CreatedAt = 0, dir_UpdatedAt = 1\<rparr>"

definition exDecode :: "string \<Rightarrow> Err + DirOrFileDoc option" where
  "exDecode b =
     (if b = ''same'' then Inr (Some (IsFile (exFile\<lparr>file_DocRev := ''1-a''\<rparr>)))
      else if b = ''fewer-refs'' then
        Inr (Some (IsFile (exFile\<lparr>file_DocRev := ''1-a'', file_ReferencedBy := Some [refA]\<rparr>)))
      else if b = ''renamed'' then
        Inr (Some (IsFile (exFile\<lparr>file_DocRev := ''1-a'', file_DocName := ''b.txt''\<rparr>)))
      else if b = ''changed'' then
        Inr (Some (IsFile (exFile\<lparr>file_DocRev := ''1-a'', file_MD5Sum := [4, 5, 6]\<rparr>)))
      else if b = ''changed2'' then
        Inr (Some (IsFile (exFile\<lparr>file_DocRev := ''1-z'', file_MD5Sum := [4, 5, 6]\<rparr>)))
      else if b = ''dir'' then Inr (Some (IsDir exDir))
      else Inl (OtherError ''invalid character''))"

text \<open>
  An environment in which a recipient answers a \<^verbatim>\<open>GET\<close> as \<open>answer\<close> says, every other
  request succeeds, and opening the content gives \<open>opening\<close>.
\<close>

definition exEnv :: "(string \<Rightarrow> Err + string) \<Rightarrow> (Err + File) \<Rightarrow> Env" where
  "exEnv answer opening =
     \<lparr>env_consts = exConsts,
      Req = (\<lambda>tr rq. if rq_Method rq = MethodGet then answer (rq_Domain rq) else Inr []),
      OpenFile = (\<lambda>tr f. opening),
      GetDoc = (\<lambda>doctype ident. Inr exDoc),
      Marshal = (\<lambda>v. Inr ''json''),
      WriteJSON = (\<lambda>v. Inr ''payload''),
      ReadJSON = exReadJSON,
      bindDirOrFile = exDecode,
      FormatRFC1123 = (\<lambda>t. ''date'')\<rparr>"

text \<open>The answers of the two recipients.\<close>

definition answers :: "Err + string \<Rightarrow> Err + string \<Rightarrow> string \<Rightarrow> Err + string" where
  "answers a1 a2 domain = (if domain = ''r1'' then a1 else a2)"

definition notFound :: Err where
  "notFound = RequestError ''Not Found'' ''''"

definition forbidden :: Err where
  "forbidden = RequestError ''Forbidden'' ''''"

section \<open>References: the filter and the missing references\<close>

lemma elems_append_go: "elems (append_go xs x) = elems xs @ [x]"
  by (simp add: elems_def append_go_def)

lemma elems_None: "elems None = []"
  by (simp add: elems_def)

lemma matchShared_iff: "matchShared r shared = (ref_ID r \<in> ref_ID ` set shared)"
  by (induction shared) auto

lemma extractLoop_elems:
  "elems (extractLoop shared refs res) = elems res @ filter (\<lambda>r. matchShared r shared) refs"
  by (induction refs arbitrary: res) (simp_all add: elems_append_go)

lemma hasRefLoop_iff:
  "hasRefLoop lr rref b =
     (b \<or> (\<exists>rr \<in> set rref. ref_ID rr = ref_ID lr \<and> ref_Type rr = ref_Type lr))"
  by (induction rref arbitrary: b) auto

lemma missingLoop_elems:
  "elems (missingLoop lref rref refs) =
     elems refs @ filter (\<lambda>lr. \<not> hasRefLoop lr rref False) lref"
  by (induction lref arbitrary: refs) (simp_all add: elems_append_go)

lemma missingLoop_not_empty: "refs \<noteq> Some [] \<Longrightarrow> missingLoop lref rref refs \<noteq> Some []"
  by (induction lref arbitrary: refs) (simp_all add: append_go_def)

lemma parseRefs_not_None: "acc \<noteq> None \<Longrightarrow> parseRefs k vs acc \<noteq> None"
  by (induction vs arbitrary: acc) (simp_all add: Let_def append_go_def)

text \<open>A second call of \<^verbatim>\<open>getSharedReferences\<close> returns what the first one cached.\<close>

lemma getSharedReferences_again:
  "snd (getSharedReferences k (fst (getSharedReferences k so))) = snd (getSharedReferences k so)"
  by (simp add: getSharedReferences_def Let_def parseRefs_not_None)

lemma extractRelevantReferences_again:
  "snd (extractRelevantReferences k (fst (extractRelevantReferences k so a)) b) =
     snd (extractRelevantReferences k so b)"
  by (simp add: extractRelevantReferences_def case_prod_beta Let_def getSharedReferences_again)

lemma findMissingRefs_elems:
  "elems (findMissingRefs l r) =
     filter (\<lambda>lr. \<not> (\<exists>rr \<in> set (elems r). ref_ID rr = ref_ID lr \<and> ref_Type rr = ref_Type lr))
       (elems l)"
  by (simp add: findMissingRefs_def missingLoop_elems hasRefLoop_iff elems_None)

lemma findMissingRefs_not_empty: "findMissingRefs l r \<noteq> Some []"
  by (simp add: findMissingRefs_def missingLoop_not_empty)

lemma exShared:
  "snd (getSharedReferences exConsts exOpts) = Some [refA, refB]"
  by (simp add: getSharedReferences_def exConsts_def exOpts_def Split_def Let_def
        append_go_def elems_def refA_def refB_def)

text \<open>
  C7. \<^verbatim>\<open>extractRelevantReferences\<close> returns the references of its argument whose id is
  the id of some reference of the sharing, in the order of the argument; the types of
  the references are not compared.
\<close>

theorem extractRelevantReferences_filter:
  "elems (snd (extractRelevantReferences k so allRefs)) =
     filter (\<lambda>r. ref_ID r \<in> ref_ID ` set (elems (snd (getSharedReferences k so))))
       (elems allRefs)"
  by (simp add: extractRelevantReferences_def case_prod_beta Let_def extractLoop_elems
        matchShared_iff elems_None)

theorem extractRelevantReferences_filter_witness:
  "elems (snd (extractRelevantReferences exConsts exOpts (Some [refC, refD, refA]))) = [refC, refA]"
proof -
  have "filter (\<lambda>r. ref_ID r \<in> ref_ID ` set (elems (snd (getSharedReferences exConsts exOpts))))
          (elems (Some [refC, refD, refA])) = [refC, refA]"
    by (simp add: exShared elems_def refA_def refB_def refC_def refD_def)
  then show ?thesis
    by (simp only: extractRelevantReferences_filter)
qed

text \<open>
  C6. With \<open>l\<close> and \<open>r\<close> the relevant references of the local and of the remote file:
  \<^verbatim>\<open>findNewRefs\<close> returns \<^verbatim>\<open>nil\<close> when \<open>l\<close> is not longer than \<open>r\<close>; when \<open>l\<close> is longer
  it returns the references of \<open>l\<close> that have no reference of \<open>r\<close> with the same id and
  type, in order; and a result without elements is always \<^verbatim>\<open>nil\<close>, never an empty
  slice that is not \<^verbatim>\<open>nil\<close>.
\<close>

theorem findNewRefs_missing:
  "(length (elems (snd (extractRelevantReferences k so localRefs)))
      \<le> length (elems (snd (extractRelevantReferences k so remoteRefs)))
      \<longrightarrow> snd (findNewRefs k so localRefs remoteRefs) = None) \<and>
   (length (elems (snd (extractRelevantReferences k so localRefs)))
      > length (elems (snd (extractRelevantReferences k so remoteRefs)))
      \<longrightarrow> elems (snd (findNewRefs k so localRefs remoteRefs)) =
           filter (\<lambda>lr. \<not> (\<exists>rr \<in> set (elems (snd (extractRelevantReferences k so remoteRefs))).
                              ref_ID rr = ref_ID lr \<and> ref_Type rr = ref_Type lr))
             (elems (snd (extractRelevantReferences k so localRefs)))) \<and>
   (elems (snd (findNewRefs k so localRefs remoteRefs)) = []
      \<longrightarrow> snd (findNewRefs k so localRefs remoteRefs) = None)"
proof -
  let ?l = "snd (extractRelevantReferences k so localRefs)"
  let ?r = "snd (extractRelevantReferences k so remoteRefs)"
  let ?res = "snd (findNewRefs k so localRefs remoteRefs)"
  have res: "?res = (if length (elems ?l) > length (elems ?r) then findMissingRefs ?l ?r else None)"
    by (simp add: findNewRefs_def case_prod_beta Let_def len_def extractRelevantReferences_again)
  have "?res \<noteq> Some []"
    using findMissingRefs_not_empty by (simp add: res)
  then have "elems ?res = [] \<longrightarrow> ?res = None"
    by (cases ?res) (simp_all add: elems_def)
  then show ?thesis
    by (simp add: res findMissingRefs_elems)
qed

lemma exRelevant:
  "snd (extractRelevantReferences exConsts exOpts (Some [refA, refB])) = Some [refA, refB]"
  "snd (extractRelevantReferences exConsts exOpts (Some [refA])) = Some [refA]"
  "snd (extractRelevantReferences exConsts exOpts (Some [refA, refA])) = Some [refA, refA]"
  by (simp_all add: extractRelevantReferences_def case_prod_beta exShared elems_def
        append_go_def refA_def refB_def)

theorem findNewRefs_missing_witness:
  "elems (snd (findNewRefs exConsts exOpts (Some [refA, refB]) (Some [refA]))) = [refB] \<and>
   snd (findNewRefs exConsts exOpts (Some [refA]) (Some [refA, refB])) = None \<and>
   snd (findNewRefs exConsts exOpts (Some [refA, refA]) (Some [refA])) = None"
proof -
  have 1: "elems (snd (findNewRefs exConsts exOpts (Some [refA, refB]) (Some [refA]))) = [refB]"
    using findNewRefs_missing [of exConsts exOpts "Some [refA, refB]" "Some [refA]"]
    unfolding exRelevant by (simp add: elems_def refA_def refB_def)
  have 2: "snd (findNewRefs exConsts exOpts (Some [refA]) (Some [refA, refB])) = None"
    using findNewRefs_missing [of exConsts exOpts "Some [refA]" "Some [refA, refB]"]
    unfolding exRelevant by (simp add: elems_def)
  have "elems (snd (findNewRefs exConsts exOpts (Some [refA, refA]) (Some [refA]))) = []"
    using findNewRefs_missing [of exConsts exOpts "Some [refA, refA]" "Some [refA]"]
    unfolding exRelevant by (simp add: elems_def)
  then have 3: "snd (findNewRefs exConsts exOpts (Some [refA, refA]) (Some [refA])) = None"
    using findNewRefs_missing [of exConsts exOpts "Some [refA, refA]" "Some [refA]"]
    by blast
  from 1 2 3 show ?thesis by blast
qed

section \<open>Placement\<close>

lemma isSharedLoop_iff: "isSharedLoop ident ids = (ident \<in> set ids)"
  by (induction ids) auto

text \<open>
  C8. Without a selector: the root directory gives an error, an object that is one of
  the accepted ids gives the shared-with-me directory, any other object keeps the
  given parent. With a selector the result is the shared-with-me directory.
\<close>

theorem getParentDirID_placement:
  "(Selector so = [] \<and> DocID so = RootDirID k
      \<longrightarrow> getParentDirID k so dirID = Inl (ErrorsNew ''/ cannot be shared'')) \<and>
   (Selector so = [] \<and> DocID so \<noteq> RootDirID k \<and> DocID so \<in> set (Values so)
      \<longrightarrow> getParentDirID k so dirID = Inr (SharedWithMeDirID k)) \<and>
   (Selector so = [] \<and> DocID so \<noteq> RootDirID k \<and> DocID so \<notin> set (Values so)
      \<longrightarrow> getParentDirID k so dirID = Inr dirID) \<and>
   (Selector so \<noteq> [] \<longrightarrow> getParentDirID k so dirID = Inr (SharedWithMeDirID k))"
  by (simp add: getParentDirID_def isShared_def isSharedLoop_iff)

theorem getParentDirID_placement_witness:
  "getParentDirID exConsts (exOpts\<lparr>Selector := [], DocID := ''root-dir'', Values := [''root-dir'']\<rparr>) ''p''
     = Inl (ErrorsNew ''/ cannot be shared'') \<and>
   getParentDirID exConsts (exOpts\<lparr>Selector := [], DocID := ''x'', Values := [''w'', ''x'']\<rparr>) ''p''
     = Inr ''shared-with-me-dir'' \<and>
   getParentDirID exConsts (exOpts\<lparr>Selector := [], DocID := ''y'', Values := [''w'', ''x'']\<rparr>) ''p''
     = Inr ''p'' \<and>
   getParentDirID exConsts exOpts ''p'' = Inr ''shared-with-me-dir''"
  using getParentDirID_placement
          [of "exOpts\<lparr>Selector := [], DocID := ''root-dir'', Values := [''root-dir'']\<rparr>" exConsts "''p''"]
        getParentDirID_placement
          [of "exOpts\<lparr>Selector := [], DocID := ''x'', Values := [''w'', ''x'']\<rparr>" exConsts "''p''"]
        getParentDirID_placement
          [of "exOpts\<lparr>Selector := [], DocID := ''y'', Values := [''w'', ''x'']\<rparr>" exConsts "''p''"]
        getParentDirID_placement [of exOpts exConsts "''p''"]
  by (simp add: exOpts_def exConsts_def)

section \<open>The update and the deletion of a JSON document\<close>

lemma sent_append: "sent (xs @ ys) = sent xs @ sent ys"
  by (induction xs rule: sent.induct) simp_all

lemma logged_append: "logged (xs @ ys) = logged xs @ logged ys"
  by (induction xs rule: logged.induct) simp_all

lemma emit_simps: "trace (emit e s) = trace s @ [e]" "opts (emit e s) = opts s"
  by (simp_all add: emit_def)

lemma logIf_simps:
  "sent (trace (logIf c msg a s)) = sent (trace s)" "opts (logIf c msg a s) = opts s"
  by (simp_all add: logIf_def emit_simps sent_append)

lemma assertString_Some: "(assertString v = Some str) = (v = Some (JString str))"
  by (auto simp: assertString_def split: option.splits json.splits)

lemma restore_id_rev:
  assumes "fmlookup m ''_id'' = Some a" "fmlookup m ''_rev'' = Some b"
  shows "fmupd ''_rev'' b (fmupd ''_id'' a (fmdrop ''_rev'' (fmdrop ''_id'' m))) = m"
  by (rule fmap_ext) (use assms in auto)

lemma docHasChanges_None:
  "(docHasChanges newDoc doc = None) =
     (\<not> (hasString newDoc ''_id'' \<and> hasString newDoc ''_rev'' \<and> hasString doc ''_rev''))"
  by (auto simp: docHasChanges_def hasString_def Let_def split: option.splits)

text \<open>
  When no assertion panics, \<^verbatim>\<open>docHasChanges\<close> leaves the local document as it was,
  leaves the remote one without its \<^verbatim>\<open>_id\<close>, and compares the two bodies.
\<close>

lemma docHasChanges_Some:
  assumes "hasString newDoc ''_id''" "hasString newDoc ''_rev''"
    and "assertString (fmlookup (doc_M doc) ''_rev'') = Some rv"
  shows "docHasChanges newDoc doc =
     Some (newDoc, doc\<lparr>doc_M := fmupd ''_rev'' (JString rv) (docBody doc)\<rparr>,
           docBody newDoc \<noteq> docBody doc)"
proof -
  obtain a b where a: "fmlookup (doc_M newDoc) ''_id'' = Some (JString a)"
    and b: "fmlookup (doc_M newDoc) ''_rev'' = Some (JString b)"
    using assms(1,2) by (auto simp: hasString_def assertString_Some)
  show ?thesis
    using assms(3) restore_id_rev [OF a b]
    by (simp add: docHasChanges_def a b assertString_def docBody_def Let_def)
qed


lemma getDocAtRecipient_logged:
  assumes "getDocAtRecipient env doctype docID rec s = (s1, Inr remoteDoc)"
  shows "logged (trace s1) = logged (trace s)"
  using assms
  by (auto simp: getDocAtRecipient_def request_Req_def Let_def emit_simps logged_append
      split: sum.splits)

lemma exState_simps: "trace (exState so) = []" "opts (exState so) = so"
  by (simp_all add: exState_def)

text \<open>The answers of the example environment, as \<^verbatim>\<open>getDocAtRecipient\<close> reads them.\<close>

lemma exFetch:
  "getDocAtRecipient (exEnv (answers (Inr b) a2) opening) doctype docID r1 (exState so) =
     (emit (Sent \<lparr>rq_Domain = ''r1'', rq_Scheme = ''https'', rq_Method = MethodGet,
                  rq_Path = ''/data/'' @ doctype @ ''/'' @ docID,
                  rq_Headers = map_of
                    [(''Content-Type'', ''application/json''),
                     (''Accept'', ''application/json''),
                     (''Authorization'', ''Bearer t1'')],
                  rq_Queries = Map.empty, rq_Body = NoBody, rq_NoResponse = False\<rparr>) (exState so),
      exReadJSON b)"
  by (simp add: getDocAtRecipient_def request_Req_def exEnv_def answers_def r1_def)


lemma exDocStrings:
  "hasString exDoc ''_id''" "hasString exDoc ''_rev''"
  "assertString (fmlookup (doc_M exRemoteSame) ''_rev'') = Some ''1-a''"
  "assertString (fmlookup (doc_M exRemoteChanged) ''_rev'') = Some ''1-a''"
  "\<not> hasString exRemoteNoRev ''_rev''"
  by (simp_all add: hasString_def assertString_def exDoc_def exRemoteSame_def
        exRemoteChanged_def exRemoteNoRev_def)


text \<open>
  C10. The remote document was fetched. \<^verbatim>\<open>docHasChanges\<close> panics exactly when the local
  document lacks a string \<^verbatim>\<open>_id\<close> or \<^verbatim>\<open>_rev\<close> or the remote one lacks a string
  \<^verbatim>\<open>_rev\<close>. With these strings present the step of \<^verbatim>\<open>UpdateDoc\<close> for the recipient
  returns; without them it panics right after the fetch. The step of \<^verbatim>\<open>DeleteDoc\<close>
  returns when the remote document holds a string \<^verbatim>\<open>_rev\<close> and panics right after the
  fetch otherwise. A panic ends the loop: nothing is logged or added to the accumulated
  error, and the recipients that follow are not processed.
\<close>

theorem unchecked_assertions:
  assumes fetch: "getDocAtRecipient env (DocType (opts s)) (DocID (opts s)) rec s = (s1, Inr remoteDoc)"
  shows "((docHasChanges doc remoteDoc = None) =
            (\<not> (hasString doc ''_id'' \<and> hasString doc ''_rev'' \<and> hasString remoteDoc ''_rev''))) \<and>
         (hasString doc ''_id'' \<and> hasString doc ''_rev'' \<and> hasString remoteDoc ''_rev''
            \<longrightarrow> returned (UpdateDoc_recipient env rec s doc) \<noteq> None) \<and>
         (\<not> (hasString doc ''_id'' \<and> hasString doc ''_rev'' \<and> hasString remoteDoc ''_rev'')
            \<longrightarrow> forRecipients (UpdateDoc_recipient env) (rec # rest) s doc = Panic s1) \<and>
         (hasString remoteDoc ''_rev''
            \<longrightarrow> returned (DeleteDoc_recipient env rec s errFinal) \<noteq> None) \<and>
         (\<not> hasString remoteDoc ''_rev''
            \<longrightarrow> forRecipients (DeleteDoc_recipient env) (rec # rest) s errFinal = Panic s1) \<and>
         logged (trace s1) = logged (trace s)"
proof -
  have upd_ok: "returned (UpdateDoc_recipient env rec s doc) \<noteq> None"
    if ok: "hasString doc ''_id'' \<and> hasString doc ''_rev'' \<and> hasString remoteDoc ''_rev''"
  proof -
    from ok obtain rv where rv: "assertString (fmlookup (doc_M remoteDoc) ''_rev'') = Some rv"
      by (auto simp: hasString_def)
    from ok have strs: "hasString doc ''_id''" "hasString doc ''_rev''"
      by simp_all
    show ?thesis
      by (simp add: UpdateDoc_recipient_def fetch docHasChanges_Some [OF strs rv] assertString_def
          Let_def case_prod_beta)
  qed
  have upd_panic: "forRecipients (UpdateDoc_recipient env) (rec # rest) s doc = Panic s1"
    if "\<not> (hasString doc ''_id'' \<and> hasString doc ''_rev'' \<and> hasString remoteDoc ''_rev'')"
  proof -
    from that have "docHasChanges doc remoteDoc = None"
      by (simp add: docHasChanges_None)
    then show ?thesis
      by (simp add: UpdateDoc_recipient_def fetch)
  qed
  have del_ok: "returned (DeleteDoc_recipient env rec s errFinal) \<noteq> None"
    if "hasString remoteDoc ''_rev''"
    using that
    by (auto simp: DeleteDoc_recipient_def fetch hasString_def Let_def case_prod_beta)
  have del_panic: "forRecipients (DeleteDoc_recipient env) (rec # rest) s errFinal = Panic s1"
    if "\<not> hasString remoteDoc ''_rev''"
    using that by (simp add: DeleteDoc_recipient_def fetch hasString_def)
  show ?thesis
    using upd_ok upd_panic del_ok del_panic getDocAtRecipient_logged [OF fetch]
    by (simp add: docHasChanges_None)
qed

theorem unchecked_assertions_witness:
  "returned (UpdateDoc_recipient (exEnv (answers (Inr ''changed'') (Inr ''same'')) (Inr 7)) r1
      (exState exOpts) exDoc) \<noteq> None \<and>
   returned (forRecipients (UpdateDoc_recipient (exEnv (answers (Inr ''norev'') (Inr ''same'')) (Inr 7)))
      [r1, r2] (exState exOpts) exDoc) = None \<and>
   returned (DeleteDoc_recipient (exEnv (answers (Inr ''changed'') (Inr ''same'')) (Inr 7)) r1
      (exState exOpts) None) \<noteq> None \<and>
   returned (forRecipients (DeleteDoc_recipient (exEnv (answers (Inr ''norev'') (Inr ''same'')) (Inr 7)))
      [r1, r2] (exState exOpts) None) = None"
proof -
  let ?changed = "exEnv (answers (Inr ''changed'') (Inr ''same'')) (Inr 7)"
  let ?norev = "exEnv (answers (Inr ''norev'') (Inr ''same'')) (Inr 7)"
  define s1 where "s1 = fst (getDocAtRecipient ?changed (DocType (opts (exState exOpts)))
      (DocID (opts (exState exOpts))) r1 (exState exOpts))"
  define s2 where "s2 = fst (getDocAtRecipient ?norev (DocType (opts (exState exOpts)))
      (DocID (opts (exState exOpts))) r1 (exState exOpts))"
  have f1: "getDocAtRecipient ?changed (DocType (opts (exState exOpts)))
      (DocID (opts (exState exOpts))) r1 (exState exOpts) = (s1, Inr exRemoteChanged)"
    by (simp add: s1_def exFetch exReadJSON_def)
  have f2: "getDocAtRecipient ?norev (DocType (opts (exState exOpts)))
      (DocID (opts (exState exOpts))) r1 (exState exOpts) = (s2, Inr exRemoteNoRev)"
    by (simp add: s2_def exFetch exReadJSON_def)
  have yes: "hasString exRemoteChanged ''_rev''"
    using exDocStrings(4) by (simp add: hasString_def)
  note no = exDocStrings(5)
  from unchecked_assertions [OF f1, of exDoc "[]" None] exDocStrings(1,2) yes
  have 1: "returned (UpdateDoc_recipient ?changed r1 (exState exOpts) exDoc) \<noteq> None"
    and 3: "returned (DeleteDoc_recipient ?changed r1 (exState exOpts) None) \<noteq> None"
    by blast+
  from unchecked_assertions [OF f2, of exDoc "[r2]" None] no
  have 2: "returned (forRecipients (UpdateDoc_recipient ?norev) [r1, r2] (exState exOpts) exDoc) = None"
    and 4: "returned (forRecipients (DeleteDoc_recipient ?norev) [r1, r2] (exState exOpts) None) = None"
    by simp_all
  from 1 2 3 4 show ?thesis by blast
qed

section \<open>The encoding of the hashes\<close>

lemma encodeStd_props: "length encodeStd = 64" "distinct encodeStd" "CHR ''='' \<notin> set encodeStd"
  by (simp_all add: encodeStd_def)

lemma enc64_inj: "n < 64 \<Longrightarrow> m < 64 \<Longrightarrow> (enc64 n = enc64 m) = (n = m)"
  by (simp add: enc64_def nth_eq_iff_index_eq encodeStd_props)

lemma enc64_not_pad: "n < 64 \<Longrightarrow> enc64 n \<noteq> CHR ''=''" "n < 64 \<Longrightarrow> CHR ''='' \<noteq> enc64 n"
  using encodeStd_props(1,3) nth_mem [of n encodeStd] by (auto simp: enc64_def simp del: nth_mem)

lemma unat_byte: "unat (a :: 8 word) < 256"
  using unsigned_less [of a, where ?'a = nat] by simp

lemma sextets:
  "unat (a :: 8 word) div 4 < 64"
  "unat (a :: 8 word) mod 4 * 16 < 64"
  "unat (a :: 8 word) mod 4 * 16 + unat (b :: 8 word) div 16 < 64"
  "unat (b :: 8 word) mod 16 * 4 < 64"
  "unat (b :: 8 word) mod 16 * 4 + unat (c :: 8 word) div 64 < 64"
  "unat (c :: 8 word) mod 64 < 64"
  using unat_byte [of a] unat_byte [of b] unat_byte [of c] by linarith+

lemma split_base:
  fixes x y x' y' n :: nat
  assumes "y < n" "y' < n" "x * n + y = x' * n + y'"
  shows "x = x' \<and> y = y'"
proof -
  have "(x * n + y) div n = x" "(x' * n + y') div n = x'"
    using assms(1,2) by simp_all
  then have "x = x'" using assms(3) by simp
  then show ?thesis using assms(3) by simp
qed

lemma join_base:
  fixes a a' n :: nat
  assumes "a div n = a' div n" "a mod n = a' mod n"
  shows "a = a'"
  by (metis assms div_mult_mod_eq)

lemma bytes1:
  fixes a a' :: nat
  assumes "a div 4 = a' div 4" "a mod 4 * 16 = a' mod 4 * 16"
  shows "a = a'"
  using assms by (intro join_base [of a 4 a']) simp_all

lemma bytes2:
  fixes a a' b b' :: nat
  assumes "b < 256" "b' < 256"
    and "a div 4 = a' div 4" "a mod 4 * 16 + b div 16 = a' mod 4 * 16 + b' div 16"
    and "b mod 16 * 4 = b' mod 16 * 4"
  shows "a = a' \<and> b = b'"
proof -
  have "b div 16 < 16" "b' div 16 < 16" using assms(1,2) by simp_all
  from split_base [OF this assms(4)] have "a mod 4 = a' mod 4" "b div 16 = b' div 16"
    by simp_all
  moreover have "b mod 16 = b' mod 16" using assms(5) by simp
  ultimately show ?thesis
    using assms(3) join_base [of a 4 a'] join_base [of b 16 b'] by simp
qed

lemma bytes3:
  fixes a a' b b' c c' :: nat
  assumes "b < 256" "b' < 256" "c < 256" "c' < 256"
    and "a div 4 = a' div 4" "a mod 4 * 16 + b div 16 = a' mod 4 * 16 + b' div 16"
    and "b mod 16 * 4 + c div 64 = b' mod 16 * 4 + c' div 64" "c mod 64 = c' mod 64"
  shows "a = a' \<and> b = b' \<and> c = c'"
proof -
  have "b div 16 < 16" "b' div 16 < 16" using assms(1,2) by simp_all
  from split_base [OF this assms(6)] have 1: "a mod 4 = a' mod 4" "b div 16 = b' div 16"
    by simp_all
  have "c div 64 < 4" "c' div 64 < 4" using assms(3,4) by simp_all
  from split_base [OF this assms(7)] have 2: "b mod 16 = b' mod 16" "c div 64 = c' div 64"
    by simp_all
  show ?thesis
    using 1 2 assms(5,8) join_base [of a 4 a'] join_base [of b 16 b'] join_base [of c 64 c']
    by simp
qed

text \<open>\<^verbatim>\<open>EncodeToString\<close> is injective: two hashes are equal when their encodings are.\<close>

lemma EncodeToString_inj: "EncodeToString xs = EncodeToString ys \<Longrightarrow> xs = ys"
proof (induction xs arbitrary: ys rule: EncodeToString.induct)
  case 1
  then show ?case by (cases ys rule: EncodeToString.cases) simp_all
next
  case (2 a)
  then show ?case
  proof (cases ys rule: EncodeToString.cases)
    case (2 a')
    with "2.prems" have "unat a = unat a'"
      by (auto simp: enc64_inj sextets intro: bytes1)
    then show ?thesis using 2 by (simp add: word_unat_eq_iff)
  qed (simp_all add: enc64_not_pad sextets)
next
  case (3 a b)
  then show ?case
  proof (cases ys rule: EncodeToString.cases)
    case (3 a' b')
    with "3.prems" have "unat a = unat a' \<and> unat b = unat b'"
      by (intro bytes2) (simp_all add: enc64_inj sextets unat_byte)
    then show ?thesis using 3 by (simp add: word_unat_eq_iff)
  qed (simp_all add: enc64_not_pad sextets)
next
  case (4 a b c rest)
  then show ?case
  proof (cases ys rule: EncodeToString.cases)
    case (4 a' b' c' rest')
    with "4.prems" have "unat a = unat a' \<and> unat b = unat b' \<and> unat c = unat c'"
      by (intro bytes3) (simp_all add: enc64_inj sextets unat_byte)
    moreover from 4 "4.prems" have "EncodeToString rest = EncodeToString rest'"
      by simp
    ultimately show ?thesis using 4 "4.IH" by (simp add: word_unat_eq_iff)
  qed (simp_all add: enc64_not_pad sextets)
qed

section \<open>The update of a file\<close>

lemma mutating_append: "mutating (xs @ ys) = mutating xs @ mutating ys"
  by (simp add: mutating_def sent_append)

lemma mutating_Nil [simp]: "mutating [] = []"
  by (simp add: mutating_def)

lemma mutating_Sent: "mutating [Sent rq] = (if rq_Method rq \<noteq> MethodGet then [rq] else [])"
  by (simp add: mutating_def)

lemma mutating_other [simp]:
  "mutating [Opened f r] = []" "mutating [Closed c] = []" "mutating [Logged m e] = []"
  by (simp_all add: mutating_def)

lemma logIf_mutating [simp]:
  "mutating (trace (logIf c msg a s)) = mutating (trace s)"
  by (simp add: logIf_def emit_simps mutating_append)

text \<open>Reading the metadata sends one \<^verbatim>\<open>GET\<close> and leaves the options as they are.\<close>

lemma getDirOrFileMetadataAtRecipient_state:
  "opts (finalState (getDirOrFileMetadataAtRecipient env ident recInfo s)) = opts s \<and>
   mutating (trace (finalState (getDirOrFileMetadataAtRecipient env ident recInfo s)))
     = mutating (trace s)"
  by (simp add: getDirOrFileMetadataAtRecipient_def request_Req_def Let_def emit_simps
      mutating_append mutating_Sent MethodGet_def
      split: sum.splits Err.splits option.splits)

lemma getDirOrFileMetadataAtRecipient_Return:
  assumes "getDirOrFileMetadataAtRecipient env ident recInfo s = Return s1 r"
  shows "opts s1 = opts s" "mutating (trace s1) = mutating (trace s)"
  using getDirOrFileMetadataAtRecipient_state [of env ident recInfo s] assms
  by simp_all

text \<open>
  Filling the details sends nothing. When it succeeds the content is set; apart from
  the cache of the shared references and the file details the options are unchanged.
\<close>

lemma getSharedReferences_fields:
  "DocID (fst (getSharedReferences k so)) = DocID so"
  "DocRev (fst (getSharedReferences k so)) = DocRev so"
  "Path (fst (getSharedReferences k so)) = Path so"
  "Type (fst (getSharedReferences k so)) = Type so"
  "Selector (fst (getSharedReferences k so)) = Selector so"
  "Values (fst (getSharedReferences k so)) = Values so"
  "Recipients (fst (getSharedReferences k so)) = Recipients so"
  "fileOpts (fst (getSharedReferences k so)) = fileOpts so"
  by (simp_all add: getSharedReferences_def Let_def)

lemma fillDetailsAndOpenFile_fields:
  "mutating (trace (fst (fillDetailsAndOpenFile env fileDoc s))) = mutating (trace s)"
  "DocID (opts (fst (fillDetailsAndOpenFile env fileDoc s))) = DocID (opts s)"
  "DocRev (opts (fst (fillDetailsAndOpenFile env fileDoc s))) = DocRev (opts s)"
  "Path (opts (fst (fillDetailsAndOpenFile env fileDoc s))) = Path (opts s)"
  "Type (opts (fst (fillDetailsAndOpenFile env fileDoc s))) = Type (opts s)"
  "Selector (opts (fst (fillDetailsAndOpenFile env fileDoc s))) = Selector (opts s)"
  "Values (opts (fst (fillDetailsAndOpenFile env fileDoc s))) = Values (opts s)"
  "Recipients (opts (fst (fillDetailsAndOpenFile env fileDoc s))) = Recipients (opts s)"
  by (simp_all add: fillDetailsAndOpenFile_def Let_def case_prod_beta emit_simps
      mutating_append getSharedReferences_fields split: sum.splits)

lemma fillDetailsAndOpenFile_set:
  assumes "fillDetailsAndOpenFile env fileDoc s = (s', None)"
  shows "fileIsSet (opts s')"
  using assms
  by (auto simp: fillDetailsAndOpenFile_def Let_def case_prod_beta fileIsSet_def emit_simps
      split: if_splits sum.splits)

text \<open>With the content set, \<^verbatim>\<open>sendFileToRecipient\<close> sends exactly one request.\<close>

lemma sendFileToRecipient_set:
  assumes "fileIsSet (opts s)"
  shows "\<exists>s' e fo rq.
     sendFileToRecipient env recipient method s = Return s' e \<and>
     fileOpts (opts s) = Some fo \<and>
     trace s' = trace s @ [Sent rq] \<and>
     rq_Method rq = method \<and> rq_Domain rq = URL recipient \<and> rq_Scheme rq = Scheme recipient \<and>
     rq_Path rq = Path (opts s) \<and> rq_Body rq = FileBody (content fo) \<and>
     rq_Queries rq = (if DocRev (opts s) \<noteq> [] then Add (queries fo) ''rev'' (DocRev (opts s))
                      else queries fo) \<and>
     opts s' = (opts s)\<lparr>fileOpts := Some (fo\<lparr>queries := rq_Queries rq\<rparr>)\<rparr>"
  using assms
  by (auto simp: sendFileToRecipient_def fileIsSet_def Let_def request_Req_def emit_simps
      split: option.splits)

lemma EncodeToString_eq: "(EncodeToString xs = EncodeToString ys) = (xs = ys)"
  using EncodeToString_inj by blast













lemma exEnv_simps:
  "env_consts (exEnv ans opn) = exConsts"
  "Marshal (exEnv ans opn) v = Inr ''json''"
  "WriteJSON (exEnv ans opn) v = Inr ''payload''"
  "OpenFile (exEnv ans opn) tr f = opn"
  by (simp_all add: exEnv_def)

lemma exFill: "snd (fillDetailsAndOpenFile (exEnv ans (Inr c)) f s) = None"
  by (simp add: fillDetailsAndOpenFile_def exEnv_simps Let_def case_prod_beta)


lemma exOpts2_simps:
  "sharedRefs exOpts2 = None" "Selector exOpts2 = ''referenced_by''" "DocID exOpts2 = ''f1''"
  "Values exOpts2 = [''albums/a1'', ''albums/a2'']" "Recipients exOpts2 = [r1, r2]"
  "fileOpts exOpts2 = None" "DocRev exOpts2 = []"
  by (simp_all add: exOpts2_def exOpts_def)




section \<open>A recipient that does not have the file\<close>

text \<open>
  With the content set, the loop of \<^verbatim>\<open>SendFile\<close> sends one \<^verbatim>\<open>POST\<close> of the content to
  each recipient, in order, and nothing else.
\<close>

lemma SendFile_loop:
  assumes "fileIsSet (opts s)"
  shows "\<exists>s' posts.
     forRecipients (SendFile_recipient env fileDoc) recs s () = Return s' () \<and>
     fileIsSet (opts s') \<and>
     mutating (trace s') = mutating (trace s) @ posts \<and>
     map rq_Domain posts = map URL recs \<and>
     (\<forall>p \<in> set posts. rq_Method p = MethodPost \<and> (\<exists>c. rq_Body p = FileBody c))"
  using assms
proof (induction recs arbitrary: s)
  case Nil
  then show ?case by simp
next
  case (Cons rec recs)
  from sendFileToRecipient_set [OF Cons.prems, of env rec MethodPost]
  obtain s1 e fo rq where send: "sendFileToRecipient env rec MethodPost s = Return s1 e"
    and fo: "fileOpts (opts s) = Some fo"
    and tr: "trace s1 = trace s @ [Sent rq]"
    and rq: "rq_Method rq = MethodPost" "rq_Domain rq = URL rec" "rq_Body rq = FileBody (content fo)"
    and o1: "opts s1 = (opts s)\<lparr>fileOpts := Some (fo\<lparr>queries := rq_Queries rq\<rparr>)\<rparr>"
    by blast
  let ?s2 = "logIf e ''[sharing] An error occurred while trying to share file %v: %v'' e s1"
  have set2: "fileIsSet (opts ?s2)"
    using Cons.prems fo by (simp add: logIf_simps o1 fileIsSet_def)
  have m2: "mutating (trace s1) = mutating (trace s) @ [rq]"
    using rq(1) by (simp add: tr mutating_append mutating_Sent MethodPost_def MethodGet_def)
  from Cons.IH [OF set2] obtain s' posts where
    loop: "forRecipients (SendFile_recipient env fileDoc) recs ?s2 () = Return s' ()"
    and rest: "fileIsSet (opts s')" "mutating (trace s') = mutating (trace ?s2) @ posts"
      "map rq_Domain posts = map URL recs"
      "\<forall>p \<in> set posts. rq_Method p = MethodPost \<and> (\<exists>c. rq_Body p = FileBody c)"
    by blast
  have "forRecipients (SendFile_recipient env fileDoc) (rec # recs) s () = Return s' ()"
    by (simp add: SendFile_recipient_def send loop)
  moreover have "mutating (trace s') = mutating (trace s) @ (rq # posts)"
    by (simp add: rest(2) m2)
  moreover have "map rq_Domain (rq # posts) = map URL (rec # recs)"
    by (simp add: rq(2) rest(3))
  moreover have "\<forall>p \<in> set (rq # posts). rq_Method p = MethodPost \<and> (\<exists>c. rq_Body p = FileBody c)"
    using rq(1,3) rest(4) by simp
  ultimately show ?case
    using rest(1) by blast
qed

lemma closeFile_simps:
  "mutating (trace (closeFile s)) = mutating (trace s)" "opts (closeFile s) = opts s"
  by (simp_all add: closeFile_def emit_simps mutating_append split: option.splits)

lemma SendFile_creates:
  assumes fill: "snd (fillDetailsAndOpenFile env fileDoc s) = None"
  shows "\<exists>posts.
     mutating (trace (finalState (SendFile env fileDoc s))) = mutating (trace s) @ posts \<and>
     returned (SendFile env fileDoc s) = Some None \<and>
     map rq_Domain posts = map URL (Recipients (opts s)) \<and>
     (\<forall>p \<in> set posts. rq_Method p = MethodPost \<and> (\<exists>c. rq_Body p = FileBody c))"
proof -
  obtain s1 where s1: "fillDetailsAndOpenFile env fileDoc s = (s1, None)"
    using fill by (cases "fillDetailsAndOpenFile env fileDoc s") simp
  have set1: "fileIsSet (opts s1)"
    using fillDetailsAndOpenFile_set [OF s1] .
  then obtain fo where fo: "fileOpts (opts s1) = Some fo" "set_flag fo"
    by (auto simp: fileIsSet_def split: option.splits)
  have f1: "mutating (trace s1) = mutating (trace s)" "Recipients (opts s1) = Recipients (opts s)"
    using fillDetailsAndOpenFile_fields(1,8) [of env fileDoc s] s1 by simp_all
  let ?s2 = "s1\<lparr>opts := (opts s1)\<lparr>fileOpts := Some
      (fo\<lparr>queries := Add (queries fo) (QueryParamDirID (env_consts env))
                        (SharedWithMeDirID (env_consts env))\<rparr>)\<rparr>\<rparr>"
  have set2: "fileIsSet (opts ?s2)"
    using fo(2) by (simp add: fileIsSet_def)
  from SendFile_loop [OF set2, of env fileDoc "Recipients (opts s)"]
  obtain s' posts where
    loop: "forRecipients (SendFile_recipient env fileDoc) (Recipients (opts s)) ?s2 () = Return s' ()"
    and rest: "mutating (trace s') = mutating (trace ?s2) @ posts"
      "map rq_Domain posts = map URL (Recipients (opts s))"
      "\<forall>p \<in> set posts. rq_Method p = MethodPost \<and> (\<exists>c. rq_Body p = FileBody c)"
    by blast
  have out: "SendFile env fileDoc s = Return (closeFile s') None"
    by (simp add: SendFile_def s1 fo(1) Let_def f1(2) loop defer_closeFile_def)
  show ?thesis
    using rest by (simp add: out closeFile_simps f1(1))
qed

text \<open>
  The update of a file creates the file at a recipient that does not have it. The
  metadata fetch for the recipient was classified as not found, and the content is open
  or can be opened. Then the step sends, besides the \<^verbatim>\<open>GET\<close>, one \<^verbatim>\<open>POST\<close> of the content
  to each recipient of the sharing, in order, and nothing else: a create reaches the
  recipient, and no patch and no delete is sent.
\<close>

theorem UpdateOrPatchFile_recipient_absent:
  assumes fetch: "getDirOrFileMetadataAtRecipient env (DocID (opts s)) recipient s
                    = Return s1 (Inl ErrRemoteDocDoesNotExist)"
    and fill: "snd (fillDetailsAndOpenFile env fileDoc s1) = None"
    and mem: "recipient \<in> set (Recipients (opts s))"
  shows "\<exists>posts.
     mutating (trace (finalState (UpdateOrPatchFile_recipient env md5sum fileDoc recipient s ())))
       = mutating (trace s) @ posts \<and>
     map rq_Domain posts = map URL (Recipients (opts s)) \<and>
     (\<forall>p \<in> set posts. rq_Method p = MethodPost \<and> (\<exists>c. rq_Body p = FileBody c)) \<and>
     (\<exists>p \<in> set posts. rq_Domain p = URL recipient)"
proof -
  note st = getDirOrFileMetadataAtRecipient_Return [OF fetch]
  from SendFile_creates [OF fill] obtain posts where
    posts: "mutating (trace (finalState (SendFile env fileDoc s1))) = mutating (trace s1) @ posts"
      "returned (SendFile env fileDoc s1) = Some None"
      "map rq_Domain posts = map URL (Recipients (opts s1))"
      "\<forall>p \<in> set posts. rq_Method p = MethodPost \<and> (\<exists>c. rq_Body p = FileBody c)"
    by blast
  from posts(2) obtain s2 where s2: "SendFile env fileDoc s1 = Return s2 None"
    by (cases "SendFile env fileDoc s1") simp_all
  have out: "UpdateOrPatchFile_recipient env md5sum fileDoc recipient s () = Return s2 ()"
    by (simp add: UpdateOrPatchFile_recipient_def fetch s2 logIf_def)
  have "URL recipient \<in> set (map rq_Domain posts)"
    using mem by (simp add: posts(3) st(1))
  then have "\<exists>p \<in> set posts. rq_Domain p = URL recipient"
    by auto
  then show ?thesis
    using posts(1,3,4) s2 by (auto simp: out st)
qed

lemma exNotFound:
  "getDirOrFileMetadataAtRecipient (exEnv (answers (Inl notFound) a2) opn) ident r1 s =
     Return (finalState (getDirOrFileMetadataAtRecipient (exEnv (answers (Inl notFound) a2) opn) ident r1 s))
       (Inl ErrRemoteDocDoesNotExist)"
  by (simp add: getDirOrFileMetadataAtRecipient_def request_Req_def exEnv_def answers_def r1_def
      notFound_def)

lemma UpdateOrPatchFile_recipient_absent_example:
  "map label (map Sent (mutating (trace (finalState
      (UpdateOrPatchFile_recipient (exEnv (answers (Inl notFound) (Inr ''same'')) (Inr 7))
         (EncodeToString (file_MD5Sum exFile)) exFile r1 (exState exOpts2) ())))))
     = [''POST r1'', ''POST r2'']"
proof -
  let ?env = "exEnv (answers (Inl notFound) (Inr ''same'')) (Inr 7)"
  have mem: "r1 \<in> set (Recipients (opts (exState exOpts2)))"
    by (simp add: exState_simps exOpts2_simps)
  from UpdateOrPatchFile_recipient_absent [where env = ?env and fileDoc = exFile
      and md5sum = "EncodeToString (file_MD5Sum exFile)" and recipient = r1
      and s = "exState exOpts2", OF exNotFound exFill mem]
  obtain posts where
    tr: "mutating (trace (finalState (UpdateOrPatchFile_recipient ?env
           (EncodeToString (file_MD5Sum exFile)) exFile r1 (exState exOpts2) ()))) = posts"
    and dom: "map rq_Domain posts = [''r1'', ''r2'']"
    and post: "\<forall>p \<in> set posts. rq_Method p = MethodPost"
    by (auto simp: exState_simps exOpts2_simps r1_def r2_def)
  from dom obtain p1 p2 where ps: "posts = [p1, p2]" "rq_Domain p1 = ''r1''" "rq_Domain p2 = ''r2''"
    by (auto simp: map_eq_Cons_conv)
  show ?thesis
    using post by (simp add: tr ps MethodPost_def)
qed


section \<open>Runs on concrete inputs\<close>

lemmas ex_defs = exEnv_def answers_def r1_def r2_def exState_def exOpts2_def exOpts_def
  exConsts_def exDecode_def exReadJSON_def notFound_def exFile_def exDir_def exDoc_def

lemmas run_defs = request_Req_def emit_def logIf_def errOf_def Let_def
  getDirOrFileMetadataAtRecipient_def getDirOrFileRevAtRecipient_def getDocAtRecipient_def
  MethodGet_def MethodPost_def MethodPut_def MethodPatch_def MethodDelete_def

lemmas file_defs = UpdateOrPatchFile_def UpdateOrPatchFile_recipient_def SendFile_def
  SendFile_recipient_def sendFileToRecipient_def fillDetailsAndOpenFile_def closeFile_def
  defer_closeFile_def getSharedReferences_def fileIsSet_def fileHasChanges_def
  findNewRefs_def extractRelevantReferences_def findMissingRefs_def len_def elems_def
  append_go_def Split_def refA_def refB_def Add_def EncodeToString_eq

text \<open>
  The query parameters of the content are shared by the recipients and \<^verbatim>\<open>rev\<close> is
  added to them for each one: the \<^verbatim>\<open>PUT\<close> to a second recipient keeps the revision of
  the first one before its own.
\<close>

lemma rev_values_accumulate:
  "map (\<lambda>rq. (rq_Method rq, rq_Domain rq, rq_Queries rq ''rev''))
     (mutating (trace (finalState
        (UpdateOrPatchFile (exEnv (answers (Inr ''changed'') (Inr ''changed2'')) (Inr 7)) exFile
           (exState exOpts2)))))
     = [(''PUT'', ''r1'', Some [''1-a'']), (''PUT'', ''r2'', Some [''1-a'', ''1-z''])]"
  by (simp add: file_defs ex_defs run_defs mutating_def del: EncodeToString.simps)

text \<open>
  In general: a fetch of a JSON document that fails for any reason, "Not Found"
  included, is logged and nothing is sent to the recipient.
\<close>

lemma UpdateDoc_recipient_fetch_fails:
  assumes "getDocAtRecipient env (DocType (opts s)) (DocID (opts s)) rec s = (s1, Inl err)"
  shows "UpdateDoc_recipient env rec s doc =
           Return (emit (Logged ''[sharing] An error occurred while trying to get remote doc : ''
                     (Some err)) s1) doc"
    and "mutating (trace s1) = mutating (trace s)"
  using assms
  by (auto simp: UpdateDoc_recipient_def getDocAtRecipient_def request_Req_def Let_def emit_simps
      mutating_append mutating_Sent MethodGet_def split: sum.splits)

text \<open>
  C2 fails on the code. The update of a file creates the file at a recipient that
  answers "Not Found" (see above); the update of a JSON document and the patch of a
  directory do not. \<^verbatim>\<open>UpdateDoc\<close> logs the error of each fetch and sends nothing;
  \<^verbatim>\<open>PatchDir\<close> returns the error of the first fetch.
\<close>

theorem UpdateDoc_skips_absent_recipient:
  "map label (trace (finalState
      (UpdateDoc (exEnv (answers (Inl notFound) (Inl notFound)) (Inr 7)) (exState exOptsDoc))))
     = [''GET r1'', ''log'', ''GET r2'', ''log''] \<and>
   returned (UpdateDoc (exEnv (answers (Inl notFound) (Inl notFound)) (Inr 7)) (exState exOptsDoc))
     = Some None \<and>
   map label (trace (finalState
      (PatchDir (exEnv (answers (Inl notFound) (Inl notFound)) (Inr 7)) exDir (exState exOpts2))))
     = [''GET r1''] \<and>
   returned (PatchDir (exEnv (answers (Inl notFound) (Inl notFound)) (Inr 7)) exDir (exState exOpts2))
     = Some (Some ErrRemoteDocDoesNotExist)"
  by (simp add: UpdateDoc_def UpdateDoc_recipient_def PatchDir_def generateDirOrFilePatch_def
      exOptsDoc_def ex_defs run_defs)

section \<open>The content stream across the recipients\<close>

lemma closed_append: "closed (xs @ ys) = closed xs @ closed ys"
  by (induction xs rule: closed.induct) simp_all

lemma opened_append: "opened (xs @ ys) = opened xs @ opened ys"
  by (induction xs rule: opened.induct) simp_all

text \<open>
  In general: the loop of \<^verbatim>\<open>SendFile\<close> neither opens nor closes the content, and
  \<^verbatim>\<open>SendFile\<close> closes it when it returns, leaving it set.
\<close>

lemma SendFile_loop_content:
  assumes "fileOpts (opts s) = Some fo" "set_flag fo"
  shows "\<exists>s' fo'.
     forRecipients (SendFile_recipient env fileDoc) recs s () = Return s' () \<and>
     fileOpts (opts s') = Some fo' \<and> set_flag fo' \<and> content fo' = content fo \<and>
     closed (trace s') = closed (trace s) \<and> opened (trace s') = opened (trace s)"
  using assms
proof (induction recs arbitrary: s fo)
  case Nil
  then show ?case by simp
next
  case (Cons rec recs)
  have set0: "fileIsSet (opts s)"
    using Cons.prems by (simp add: fileIsSet_def)
  from sendFileToRecipient_set [OF set0, of env rec MethodPost] Cons.prems(1)
  obtain s1 e rq where send: "sendFileToRecipient env rec MethodPost s = Return s1 e"
    and tr: "trace s1 = trace s @ [Sent rq]"
    and o1: "opts s1 = (opts s)\<lparr>fileOpts := Some (fo\<lparr>queries := rq_Queries rq\<rparr>)\<rparr>"
    by auto
  let ?s2 = "logIf e ''[sharing] An error occurred while trying to share file %v: %v'' e s1"
  have f2: "fileOpts (opts ?s2) = Some (fo\<lparr>queries := rq_Queries rq\<rparr>)"
    "set_flag (fo\<lparr>queries := rq_Queries rq\<rparr>)"
    using Cons.prems(2) by (simp_all add: logIf_simps o1)
  have t2: "closed (trace ?s2) = closed (trace s)" "opened (trace ?s2) = opened (trace s)"
    by (simp_all add: logIf_def emit_simps tr closed_append opened_append)
  from Cons.IH [OF f2] obtain s' fo' where
    loop: "forRecipients (SendFile_recipient env fileDoc) recs ?s2 () = Return s' ()"
    and rest: "fileOpts (opts s') = Some fo'" "set_flag fo'" "content fo' = content fo"
      "closed (trace s') = closed (trace ?s2)" "opened (trace s') = opened (trace ?s2)"
    by auto
  have "forRecipients (SendFile_recipient env fileDoc) (rec # recs) s () = Return s' ()"
    by (simp add: SendFile_recipient_def send loop)
  then show ?case
    using rest t2 by simp
qed

lemma SendFile_closes:
  assumes fill: "fillDetailsAndOpenFile env fileDoc s = (s1, None)"
    and fo: "fileOpts (opts s1) = Some fo"
  shows "\<exists>s' fo'. SendFile env fileDoc s = Return s' None \<and>
     fileOpts (opts s') = Some fo' \<and> set_flag fo' \<and> content fo' = content fo \<and>
     closed (trace s') = closed (trace s1) @ [content fo] \<and>
     opened (trace s') = opened (trace s1)"
proof -
  have set1: "set_flag fo"
    using fillDetailsAndOpenFile_set [OF fill] fo by (simp add: fileIsSet_def)
  let ?fo1 = "fo\<lparr>queries := Add (queries fo) (QueryParamDirID (env_consts env))
                        (SharedWithMeDirID (env_consts env))\<rparr>"
  let ?s2 = "s1\<lparr>opts := (opts s1)\<lparr>fileOpts := Some ?fo1\<rparr>\<rparr>"
  have "fileOpts (opts ?s2) = Some ?fo1" "set_flag ?fo1"
    using set1 by simp_all
  from SendFile_loop_content [OF this, of env fileDoc "Recipients (opts ?s2)"]
  obtain s' fo' where
    loop: "forRecipients (SendFile_recipient env fileDoc) (Recipients (opts ?s2)) ?s2 () = Return s' ()"
    and rest: "fileOpts (opts s') = Some fo'" "set_flag fo'" "content fo' = content fo"
      "closed (trace s') = closed (trace s1)" "opened (trace s') = opened (trace s1)"
    by auto
  have "SendFile env fileDoc s = Return (closeFile s') None"
    using loop by (simp add: SendFile_def fill fo Let_def defer_closeFile_def)
  then show ?thesis
    using rest
    by (simp add: closeFile_def emit_simps closed_append opened_append)
qed

text \<open>
  In general: when the only recipient does not have the file and the content opens, the
  update of the file closes the content twice.
\<close>

lemma UpdateOrPatchFile_absent_closes_twice:
  assumes one: "Recipients (opts s) = [recipient]"
    and fetch: "getDirOrFileMetadataAtRecipient env (DocID (opts s)) recipient s
                  = Return s1 (Inl ErrRemoteDocDoesNotExist)"
    and fill: "fillDetailsAndOpenFile env fileDoc s1 = (s2, None)"
    and fo: "fileOpts (opts s2) = Some fo"
  shows "closed (trace (finalState (UpdateOrPatchFile env fileDoc s)))
           = closed (trace s2) @ [content fo, content fo]"
proof -
  from SendFile_closes [OF fill fo] obtain s' fo' where
    send: "SendFile env fileDoc s1 = Return s' None"
    and rest: "fileOpts (opts s') = Some fo'" "set_flag fo'" "content fo' = content fo"
      "closed (trace s') = closed (trace s2) @ [content fo]"
    by auto
  have "UpdateOrPatchFile env fileDoc s = Return (closeFile s') None"
    by (simp add: UpdateOrPatchFile_def one UpdateOrPatchFile_recipient_def fetch send logIf_def
        defer_closeFile_def Let_def)
  then show ?thesis
    using rest by (simp add: closeFile_def emit_simps closed_append)
qed

text \<open>
  C4 fails on the code. \<^verbatim>\<open>SendFile\<close> defers its own \<^verbatim>\<open>closeFile\<close>: when the update of
  a file calls it for a recipient that does not have the file, the content is closed
  when \<^verbatim>\<open>SendFile\<close> returns, inside the loop, and closed again when \<^verbatim>\<open>UpdateOrPatchFile\<close>
  returns. A recipient that comes later in the loop is sent the content that is
  already closed. The content is opened once.
\<close>

theorem UpdateOrPatchFile_closes_twice:
  "map label (trace (finalState
      (UpdateOrPatchFile (exEnv (answers (Inl notFound) (Inr ''changed'')) (Inr 7)) exFile
         (exState exOpts2))))
     = [''GET r1'', ''open'', ''POST r1'', ''POST r2'', ''close'', ''GET r2'', ''PUT r2'', ''close''] \<and>
   opened (trace (finalState
      (UpdateOrPatchFile (exEnv (answers (Inl notFound) (Inr ''changed'')) (Inr 7)) exFile
         (exState exOpts2)))) = [7] \<and>
   closed (trace (finalState
      (UpdateOrPatchFile (exEnv (answers (Inl notFound) (Inr ''changed'')) (Inr 7)) exFile
         (exState exOpts2)))) = [7, 7]"
  by (simp add: file_defs ex_defs run_defs del: EncodeToString.simps)

section \<open>A recipient that fails\<close>

text \<open>In general: the loop of \<^verbatim>\<open>PatchDir\<close> ends at the first fetch that fails.\<close>

lemma PatchDir_loop_fetch_fails:
  assumes "getDirOrFileRevAtRecipient env (DocID (opts s)) rec s = Return s1 (Inl err)"
  shows "PatchDir_loop env patch dirDoc (rec # rest) s errFinal = Return s1 (Some err)"
  using assms by simp

text \<open>
  C5 fails on the code. \<^verbatim>\<open>PatchDir\<close> returns from inside its loop when the revision of
  a recipient cannot be read: the first recipient answers "Forbidden", the second one
  is never contacted, and the error returned is the one of the fetch.
\<close>

theorem PatchDir_stops_at_failed_fetch:
  "map label (trace (finalState
      (PatchDir (exEnv (answers (Inl forbidden) (Inr ''dir'')) (Inr 7)) exDir (exState exOpts2))))
     = [''GET r1''] \<and>
   returned (PatchDir (exEnv (answers (Inl forbidden) (Inr ''dir'')) (Inr 7)) exDir (exState exOpts2))
     = Some (Some forbidden) \<and>
   map label (trace (finalState
      (PatchDir (exEnv (answers (Inr ''dir'') (Inl forbidden)) (Inr 7)) exDir (exState exOpts2))))
     = [''GET r1'', ''PATCH r1'', ''GET r2'']"
  by (simp add: PatchDir_def generateDirOrFilePatch_def sendPatchToRecipient_def getParentDirID_def
      forbidden_def ex_defs run_defs)

text \<open>In general: \<^verbatim>\<open>DeleteDirOrFile\<close> returns \<^verbatim>\<open>nil\<close> whenever it returns.\<close>

lemma DeleteDirOrFile_nil:
  "returned (DeleteDirOrFile env s) = None \<or> returned (DeleteDirOrFile env s) = Some None"
  by (simp add: DeleteDirOrFile_def split: Outcome.splits)

text \<open>
  C9 fails on the code. \<^verbatim>\<open>DeleteDirOrFile\<close> accumulates the errors of the recipients
  and ends with \<^verbatim>\<open>return nil\<close>: the first recipient answers "Forbidden", the loop
  records the error and goes on to delete at the second recipient with the revision
  fetched there, and the operation returns \<^verbatim>\<open>nil\<close>.
\<close>

theorem DeleteDirOrFile_returns_nil:
  "returned (forRecipients (DeleteDirOrFile_recipient (exEnv (answers (Inl forbidden) (Inr ''same'')) (Inr 7)))
      [r1, r2] (exState exOpts2) None)
     = Some (Some (MultiError [Errorf ''Error while trying to get a revision at %v: %v'' forbidden])) \<and>
   returned (DeleteDirOrFile (exEnv (answers (Inl forbidden) (Inr ''same'')) (Inr 7)) (exState exOpts2))
     = Some None \<and>
   map label (trace (finalState
      (DeleteDirOrFile (exEnv (answers (Inl forbidden) (Inr ''same'')) (Inr 7)) (exState exOpts2))))
     = [''GET r1'', ''GET r2'', ''DELETE r2'']"
  by (simp add: DeleteDirOrFile_def DeleteDirOrFile_recipient_def forbidden_def ex_defs run_defs)

end
